theory Spec2Isabelle
  imports Main "HOL-Library.Word"
begin

unbundle bit_operations_syntax

section \<open>GTT virtualization (drivers/gpu/drm/i915/gvt/gtt.c)\<close>

text \<open>
  A shallow embedding of the shadow page-table core of \<^verbatim>\<open>gtt.c\<close>.  The kernel is
  built for x86-64: \<^verbatim>\<open>unsigned long\<close> and \<^verbatim>\<open>u64\<close> are 64-bit words, \<^verbatim>\<open>unsigned int\<close>
  and \<^verbatim>\<open>u32\<close> are 32-bit words.  A C function that returns an \<^verbatim>\<open>int\<close> status and
  updates objects through pointers becomes a function from the state to the pair of the
  status and the new state.
\<close>

type_synonym u8 = "8 word"
type_synonym u32 = "32 word"
type_synonym u64 = "64 word"

subsection \<open>Constants of headers\<close>

text \<open>Error numbers of \<^verbatim>\<open>errno-base.h\<close>; the functions return them negated.\<close>

definition ENXIO :: int where "ENXIO = 6"
definition ENOMEM :: int where "ENOMEM = 12"
definition EINVAL :: int where "EINVAL = 22"

text \<open>
  Modelled from the spec: \<^verbatim>\<open>gtt.h\<close> is not among the sources, so the constants it
  declares are written here.  The invalid-address sentinel is the all-ones word, a GTT
  page is 4 KB (the spec's flat-GGTT index is bits N:12).
\<close>

definition INTEL_GVT_INVALID_ADDR :: u64 where "INTEL_GVT_INVALID_ADDR = NOT 0"
definition GTT_PAGE_SHIFT :: nat where "GTT_PAGE_SHIFT = 12"
definition GTT_PAGE_SIZE :: nat where "GTT_PAGE_SIZE = 4096"
definition GTT_ENTRY_NUM_IN_ONE_PAGE :: nat where "GTT_ENTRY_NUM_IN_ONE_PAGE = 512"

text \<open>
  Modelled from the spec: the enumeration \<^verbatim>\<open>intel_gvt_gtt_type_t\<close> of \<^verbatim>\<open>gtt.h\<close>.  The
  code compares its values with \<^verbatim>\<open><\<close>, adds one to them and indexes arrays with them, so
  a type tag is the \<^verbatim>\<open>int\<close> of the enumerator.  The order is the one the macros and the
  scratch-page comments of \<^verbatim>\<open>gtt.c\<close> rely on: leaf entries, the \<^verbatim>\<open>PTE_ENTRY\<close> marker,
  directory entries, the \<^verbatim>\<open>ROOT_ENTRY\<close> marker, root pointers, the \<^verbatim>\<open>PPGTT_ENTRY\<close> marker,
  then the page-table types from the PTE table up to the PML4 table.
\<close>

definition GTT_TYPE_INVALID :: int where "GTT_TYPE_INVALID = -1"
definition GTT_TYPE_GGTT_PTE :: int where "GTT_TYPE_GGTT_PTE = 0"
definition GTT_TYPE_PPGTT_PTE_4K_ENTRY :: int where "GTT_TYPE_PPGTT_PTE_4K_ENTRY = 1"
definition GTT_TYPE_PPGTT_PTE_2M_ENTRY :: int where "GTT_TYPE_PPGTT_PTE_2M_ENTRY = 2"
definition GTT_TYPE_PPGTT_PTE_1G_ENTRY :: int where "GTT_TYPE_PPGTT_PTE_1G_ENTRY = 3"
definition GTT_TYPE_PPGTT_PTE_ENTRY :: int where "GTT_TYPE_PPGTT_PTE_ENTRY = 4"
definition GTT_TYPE_PPGTT_PDE_ENTRY :: int where "GTT_TYPE_PPGTT_PDE_ENTRY = 5"
definition GTT_TYPE_PPGTT_PDP_ENTRY :: int where "GTT_TYPE_PPGTT_PDP_ENTRY = 6"
definition GTT_TYPE_PPGTT_PML4_ENTRY :: int where "GTT_TYPE_PPGTT_PML4_ENTRY = 7"
definition GTT_TYPE_PPGTT_ROOT_ENTRY :: int where "GTT_TYPE_PPGTT_ROOT_ENTRY = 8"
definition GTT_TYPE_PPGTT_ROOT_L3_ENTRY :: int where "GTT_TYPE_PPGTT_ROOT_L3_ENTRY = 9"
definition GTT_TYPE_PPGTT_ROOT_L4_ENTRY :: int where "GTT_TYPE_PPGTT_ROOT_L4_ENTRY = 10"
definition GTT_TYPE_PPGTT_ENTRY :: int where "GTT_TYPE_PPGTT_ENTRY = 11"
definition GTT_TYPE_PPGTT_PTE_PT :: int where "GTT_TYPE_PPGTT_PTE_PT = 12"
definition GTT_TYPE_PPGTT_PDE_PT :: int where "GTT_TYPE_PPGTT_PDE_PT = 13"
definition GTT_TYPE_PPGTT_PDP_PT :: int where "GTT_TYPE_PPGTT_PDP_PT = 14"
definition GTT_TYPE_PPGTT_PML4_PT :: int where "GTT_TYPE_PPGTT_PML4_PT = 15"
definition GTT_TYPE_MAX :: int where "GTT_TYPE_MAX = 16"

lemmas gtt_type_defs =
  GTT_TYPE_INVALID_def GTT_TYPE_GGTT_PTE_def GTT_TYPE_PPGTT_PTE_4K_ENTRY_def
  GTT_TYPE_PPGTT_PTE_2M_ENTRY_def GTT_TYPE_PPGTT_PTE_1G_ENTRY_def
  GTT_TYPE_PPGTT_PTE_ENTRY_def GTT_TYPE_PPGTT_PDE_ENTRY_def GTT_TYPE_PPGTT_PDP_ENTRY_def
  GTT_TYPE_PPGTT_PML4_ENTRY_def GTT_TYPE_PPGTT_ROOT_ENTRY_def
  GTT_TYPE_PPGTT_ROOT_L3_ENTRY_def GTT_TYPE_PPGTT_ROOT_L4_ENTRY_def
  GTT_TYPE_PPGTT_ENTRY_def GTT_TYPE_PPGTT_PTE_PT_def GTT_TYPE_PPGTT_PDE_PT_def
  GTT_TYPE_PPGTT_PDP_PT_def GTT_TYPE_PPGTT_PML4_PT_def GTT_TYPE_MAX_def

text \<open>Modelled from the spec: \<^verbatim>\<open>INTEL_GVT_MM_GGTT\<close> and \<^verbatim>\<open>INTEL_GVT_MM_PPGTT\<close> of \<^verbatim>\<open>gtt.h\<close>.\<close>

definition INTEL_GVT_MM_GGTT :: int where "INTEL_GVT_MM_GGTT = 0"
definition INTEL_GVT_MM_PPGTT :: int where "INTEL_GVT_MM_PPGTT = 1"

subsection \<open>Type predicates and the type table\<close>

definition gtt_type_is_entry :: "int \<Rightarrow> bool" where
  "gtt_type_is_entry t \<longleftrightarrow>
     t > GTT_TYPE_INVALID \<and> t < GTT_TYPE_PPGTT_ENTRY
     \<and> t \<noteq> GTT_TYPE_PPGTT_PTE_ENTRY
     \<and> t \<noteq> GTT_TYPE_PPGTT_ROOT_ENTRY"

definition gtt_type_is_pt :: "int \<Rightarrow> bool" where
  "gtt_type_is_pt t \<longleftrightarrow> t \<ge> GTT_TYPE_PPGTT_PTE_PT \<and> t < GTT_TYPE_MAX"

definition gtt_type_is_pte_pt :: "int \<Rightarrow> bool" where
  "gtt_type_is_pte_pt t \<longleftrightarrow> t = GTT_TYPE_PPGTT_PTE_PT"

definition gtt_type_is_root_pointer :: "int \<Rightarrow> bool" where
  "gtt_type_is_root_pointer t \<longleftrightarrow> gtt_type_is_entry t \<and> t > GTT_TYPE_PPGTT_ROOT_ENTRY"

record gtt_type_table_entry =
  entry_type :: int
  next_pt_type :: int
  pse_entry_type :: int

definition GTT_TYPE_TABLE_ENTRY :: "int \<Rightarrow> int \<Rightarrow> int \<Rightarrow> gtt_type_table_entry" where
  "GTT_TYPE_TABLE_ENTRY e_type npt_type pse_type =
     \<lparr>entry_type = e_type, next_pt_type = npt_type, pse_entry_type = pse_type\<rparr>"

text \<open>
  The static array \<^verbatim>\<open>gtt_type_table\<close>, with designated initialisers: it has
  \<^verbatim>\<open>GTT_TYPE_PPGTT_PML4_PT + 1\<close> rows and a row that no initialiser names is zero, which
  reads as \<^verbatim>\<open>GTT_TYPE_GGTT_PTE\<close> in its three fields.  An index outside the array is
  an out-of-bounds read in C; the model gives the row of \<^verbatim>\<open>GTT_TYPE_INVALID\<close>s there.
\<close>

definition gtt_type_table :: "int \<Rightarrow> gtt_type_table_entry" where
  "gtt_type_table t =
    (if t = GTT_TYPE_PPGTT_ROOT_L4_ENTRY then
       GTT_TYPE_TABLE_ENTRY GTT_TYPE_PPGTT_ROOT_L4_ENTRY GTT_TYPE_PPGTT_PML4_PT GTT_TYPE_INVALID
     else if t = GTT_TYPE_PPGTT_PML4_PT then
       GTT_TYPE_TABLE_ENTRY GTT_TYPE_PPGTT_PML4_ENTRY GTT_TYPE_PPGTT_PDP_PT GTT_TYPE_INVALID
     else if t = GTT_TYPE_PPGTT_PML4_ENTRY then
       GTT_TYPE_TABLE_ENTRY GTT_TYPE_PPGTT_PML4_ENTRY GTT_TYPE_PPGTT_PDP_PT GTT_TYPE_INVALID
     else if t = GTT_TYPE_PPGTT_PDP_PT then
       GTT_TYPE_TABLE_ENTRY GTT_TYPE_PPGTT_PDP_ENTRY GTT_TYPE_PPGTT_PDE_PT
         GTT_TYPE_PPGTT_PTE_1G_ENTRY
     else if t = GTT_TYPE_PPGTT_ROOT_L3_ENTRY then
       GTT_TYPE_TABLE_ENTRY GTT_TYPE_PPGTT_ROOT_L3_ENTRY GTT_TYPE_PPGTT_PDE_PT
         GTT_TYPE_PPGTT_PTE_1G_ENTRY
     else if t = GTT_TYPE_PPGTT_PDP_ENTRY then
       GTT_TYPE_TABLE_ENTRY GTT_TYPE_PPGTT_PDP_ENTRY GTT_TYPE_PPGTT_PDE_PT
         GTT_TYPE_PPGTT_PTE_1G_ENTRY
     else if t = GTT_TYPE_PPGTT_PDE_PT then
       GTT_TYPE_TABLE_ENTRY GTT_TYPE_PPGTT_PDE_ENTRY GTT_TYPE_PPGTT_PTE_PT
         GTT_TYPE_PPGTT_PTE_2M_ENTRY
     else if t = GTT_TYPE_PPGTT_PDE_ENTRY then
       GTT_TYPE_TABLE_ENTRY GTT_TYPE_PPGTT_PDE_ENTRY GTT_TYPE_PPGTT_PTE_PT
         GTT_TYPE_PPGTT_PTE_2M_ENTRY
     else if t = GTT_TYPE_PPGTT_PTE_PT then
       GTT_TYPE_TABLE_ENTRY GTT_TYPE_PPGTT_PTE_4K_ENTRY GTT_TYPE_INVALID GTT_TYPE_INVALID
     else if t = GTT_TYPE_PPGTT_PTE_4K_ENTRY then
       GTT_TYPE_TABLE_ENTRY GTT_TYPE_PPGTT_PTE_4K_ENTRY GTT_TYPE_INVALID GTT_TYPE_INVALID
     else if t = GTT_TYPE_PPGTT_PTE_2M_ENTRY then
       GTT_TYPE_TABLE_ENTRY GTT_TYPE_PPGTT_PDE_ENTRY GTT_TYPE_INVALID
         GTT_TYPE_PPGTT_PTE_2M_ENTRY
     else if t = GTT_TYPE_PPGTT_PTE_1G_ENTRY then
       GTT_TYPE_TABLE_ENTRY GTT_TYPE_PPGTT_PDP_ENTRY GTT_TYPE_INVALID
         GTT_TYPE_PPGTT_PTE_1G_ENTRY
     else if t = GTT_TYPE_GGTT_PTE then
       GTT_TYPE_TABLE_ENTRY GTT_TYPE_GGTT_PTE GTT_TYPE_INVALID GTT_TYPE_INVALID
     else if 0 \<le> t \<and> t \<le> GTT_TYPE_PPGTT_PML4_PT then
       GTT_TYPE_TABLE_ENTRY 0 0 0
     else
       GTT_TYPE_TABLE_ENTRY GTT_TYPE_INVALID GTT_TYPE_INVALID GTT_TYPE_INVALID)"

definition get_next_pt_type :: "int \<Rightarrow> int" where
  "get_next_pt_type t = next_pt_type (gtt_type_table t)"

definition get_entry_type :: "int \<Rightarrow> int" where
  "get_entry_type t = entry_type (gtt_type_table t)"

definition get_pse_type :: "int \<Rightarrow> int" where
  "get_pse_type t = pse_entry_type (gtt_type_table t)"

subsection \<open>Page-table entry codec\<close>

text \<open>
  \<^verbatim>\<open>struct intel_gvt_gtt_entry\<close>: the raw value and its type tag (the \<^verbatim>\<open>pdev\<close> field is
  never read by the functions modelled here).
\<close>

record intel_gvt_gtt_entry =
  val64 :: u64
  type :: int

definition GTT_HAW :: nat where "GTT_HAW = 46"

definition ADDR_1G_MASK :: u64 where
  "ADDR_1G_MASK = push_bit 30 (push_bit (GTT_HAW - 30) 1 - 1)"

definition ADDR_2M_MASK :: u64 where
  "ADDR_2M_MASK = push_bit 21 (push_bit (GTT_HAW - 21) 1 - 1)"

definition ADDR_4K_MASK :: u64 where
  "ADDR_4K_MASK = push_bit 12 (push_bit (GTT_HAW - 12) 1 - 1)"

definition gen8_gtt_get_pfn :: "intel_gvt_gtt_entry \<Rightarrow> u64" where
  "gen8_gtt_get_pfn e =
     (if type e = GTT_TYPE_PPGTT_PTE_1G_ENTRY then drop_bit 12 (val64 e AND ADDR_1G_MASK)
      else if type e = GTT_TYPE_PPGTT_PTE_2M_ENTRY then drop_bit 12 (val64 e AND ADDR_2M_MASK)
      else drop_bit 12 (val64 e AND ADDR_4K_MASK))"

definition gen8_gtt_set_pfn :: "intel_gvt_gtt_entry \<Rightarrow> u64 \<Rightarrow> intel_gvt_gtt_entry" where
  "gen8_gtt_set_pfn e pfn =
     (if type e = GTT_TYPE_PPGTT_PTE_1G_ENTRY then
        e\<lparr>val64 := (val64 e AND NOT ADDR_1G_MASK)
                     OR push_bit 12 (pfn AND drop_bit 12 ADDR_1G_MASK)\<rparr>
      else if type e = GTT_TYPE_PPGTT_PTE_2M_ENTRY then
        e\<lparr>val64 := (val64 e AND NOT ADDR_2M_MASK)
                     OR push_bit 12 (pfn AND drop_bit 12 ADDR_2M_MASK)\<rparr>
      else
        e\<lparr>val64 := (val64 e AND NOT ADDR_4K_MASK)
                     OR push_bit 12 (pfn AND drop_bit 12 ADDR_4K_MASK)\<rparr>)"

text \<open>
  \<^verbatim>\<open>gen8_gtt_test_pse\<close> updates the type tag of the entry it tests: the result is the
  truth value together with the entry.
\<close>

definition gen8_gtt_test_pse :: "intel_gvt_gtt_entry \<Rightarrow> bool \<times> intel_gvt_gtt_entry" where
  "gen8_gtt_test_pse e =
     (if get_pse_type (type e) = GTT_TYPE_INVALID then (False, e)
      else
        let e1 = e\<lparr>type := get_entry_type (type e)\<rparr> in
        if val64 e1 AND push_bit 7 1 = 0 then (False, e1)
        else (True, e1\<lparr>type := get_pse_type (type e1)\<rparr>))"

definition gen8_gtt_test_present :: "intel_gvt_gtt_entry \<Rightarrow> bool" where
  "gen8_gtt_test_present e =
     (if type e = GTT_TYPE_PPGTT_ROOT_L3_ENTRY \<or> type e = GTT_TYPE_PPGTT_ROOT_L4_ENTRY
      then val64 e \<noteq> 0
      else val64 e AND push_bit 0 1 \<noteq> 0)"

definition gtt_entry_clear_present :: "intel_gvt_gtt_entry \<Rightarrow> intel_gvt_gtt_entry" where
  "gtt_entry_clear_present e = e\<lparr>val64 := val64 e AND NOT (push_bit 0 1)\<rparr>"

subsection \<open>Per-platform GMA routines\<close>

definition gma_to_ggtt_pte_index :: "u64 \<Rightarrow> u64" where
  "gma_to_ggtt_pte_index gma = drop_bit GTT_PAGE_SHIFT gma"

definition gen8_gma_to_pte_index :: "u64 \<Rightarrow> u64" where
  "gen8_gma_to_pte_index gma = drop_bit 12 gma AND 0x1ff"

definition gen8_gma_to_pde_index :: "u64 \<Rightarrow> u64" where
  "gen8_gma_to_pde_index gma = drop_bit 21 gma AND 0x1ff"

definition gen8_gma_to_l3_pdp_index :: "u64 \<Rightarrow> u64" where
  "gen8_gma_to_l3_pdp_index gma = drop_bit 30 gma AND 0x3"

definition gen8_gma_to_l4_pdp_index :: "u64 \<Rightarrow> u64" where
  "gen8_gma_to_l4_pdp_index gma = drop_bit 30 gma AND 0x1ff"

definition gen8_gma_to_pml4_index :: "u64 \<Rightarrow> u64" where
  "gen8_gma_to_pml4_index gma = drop_bit 39 gma AND 0x1ff"


subsection \<open>The state\<close>

text \<open>
  Objects live in stores indexed by their address, a natural number; a nullable pointer
  is an \<open>option\<close>.  The structures \<^verbatim>\<open>intel_vgpu_shadow_page\<close> and
  \<^verbatim>\<open>intel_vgpu_guest_page\<close> are embedded in \<^verbatim>\<open>intel_vgpu_ppgtt_spt\<close> and the code moves
  between the three by \<^verbatim>\<open>container_of\<close>, so one record holds them, a field
  \<^verbatim>\<open>spt->shadow_page.mfn\<close> being \<open>shadow_page_mfn\<close>, and a pointer to the guest page of
  a shadow page table is the address of the table.  The reference count is an
  \<^verbatim>\<open>atomic_t\<close>, a 32-bit integer read as signed.  The 4 KB of a page are its cells of
  eight bytes, numbered from 0.  The page itself, \<^verbatim>\<open>spt->shadow_page.page\<close>, is known by
  the bus address that mapping it for DMA gives.  A kernel list or hash bucket is the
  list of the addresses of its members, head first.
\<close>

record intel_vgpu_ppgtt_spt =
  shadow_page_page :: "u64 option"
  shadow_page_vaddr :: "nat \<Rightarrow> u64"
  shadow_page_type :: int
  shadow_page_mfn :: u64
  guest_page_writeprotection :: bool
  guest_page_gfn :: u64
  guest_page_write_cnt :: u64
  guest_page_oos_page :: "nat option"
  guest_page_type :: int
  refcount :: u32
  post_shadow_bitmap :: "nat set"

record intel_vgpu_oos_page =
  oos_guest_page :: "nat option"
  oos_mem :: "nat \<Rightarrow> u64"

text \<open>
  \<^verbatim>\<open>struct intel_vgpu_mm\<close>.  The two page-table pointers are \<open>None\<close> when they are
  \<^verbatim>\<open>NULL\<close> and hold the cells of the buffer otherwise.
\<close>

record intel_vgpu_mm =
  mm_type :: int
  initialized :: bool
  shadowed :: bool
  has_shadow_page_table :: bool
  page_table_entry_type :: int
  page_table_entry_cnt :: nat
  virtual_page_table :: "(nat \<Rightarrow> u64) option"
  shadow_page_table :: "(nat \<Rightarrow> u64) option"
  pincount :: u32
  page_table_level :: int

text \<open>
  What \<^verbatim>\<open>alloc_spt\<close> gets from the kernel at one attempt: no memory, or a page together
  with the bus address that \<^verbatim>\<open>dma_map_page\<close> gives for it later (\<open>None\<close> when
  \<^verbatim>\<open>dma_mapping_error\<close> holds).
\<close>

datatype page_alloc = NoMemory | Page "u64 option"

text \<open>The \<^verbatim>\<open>void *pt\<close> argument of the entry accessors.\<close>

datatype pt_ptr =
  PT_NULL
  | PT_shadow_page nat
  | PT_oos_mem nat
  | PT_mm_virtual nat
  | PT_mm_shadow nat

text \<open>
  The state of one vGPU and of its device.

  Modelled from the spec: the hypervisor memory service (\<^verbatim>\<open>mpt.h\<close>) and the fields of
  \<^verbatim>\<open>gvt.h\<close> are not among the sources.  The service is a black box that is synchronous
  and may fail: \<open>hv_gfn_to_mfn\<close> gives the machine frame of a guest frame or
  \<^verbatim>\<open>INTEL_GVT_INVALID_ADDR\<close>, the four \<open>hv_*_ret\<close> functions give the status of a call
  at a guest address or frame (0 for success), and \<open>guest_mem\<close> is the guest's physical
  memory in bytes.  The vGPU's graphics memory is its aperture range and its hidden
  range, both with inclusive ends.

  \<open>page_allocator\<close> lists what the kernel will answer to the coming page
  allocations, \<open>next_spt\<close> is the address of the next object \<^verbatim>\<open>kzalloc\<close> returns.
  \<open>stop_machine_path\<close> says that the build has \<^verbatim>\<open>CONFIG_INTEL_IOMMU\<close>, graphics is
  mapped by the IOMMU and the device is Broxton.  \<open>uninit_entry\<close> is the indeterminate
  content of an entry variable that is read before it was written, \<open>uninit_padding\<close>
  the indeterminate content of the padding of such a variable.  \<open>gsm\<close> is the
  GGTT of the hardware, \<open>gfx_flsh_cntl\<close> counts the writes of the flush register.
\<close>

record gvt_state =
  gtt_entry_size :: nat
  gtt_entry_size_shift :: nat
  gtt_start_offset :: u32
  enable_gvt_oos :: bool
  stop_machine_path :: bool
  pvmmio_ppgtt_update :: bool
  hv_gfn_to_mfn :: "u64 \<Rightarrow> u64"
  hv_read_gpa_ret :: "u64 \<Rightarrow> int"
  hv_write_gpa_ret :: "u64 \<Rightarrow> int"
  hv_set_wp_ret :: "u64 \<Rightarrow> int"
  hv_unset_wp_ret :: "u64 \<Rightarrow> int"
  guest_mem :: "u64 \<Rightarrow> u8"
  page_allocator :: "page_alloc list"
  next_spt :: nat
  uninit_entry :: intel_gvt_gtt_entry
  uninit_padding :: "nat \<Rightarrow> u8"
  saved_gfn :: u64
  saved_mfn :: u64
  ge_cache_enable :: bool
  cached_guest_entry :: "(nat \<Rightarrow> u64) option"
  vgpu_aperture_gmadr_base :: u64
  vgpu_aperture_gmadr_end :: u64
  vgpu_hidden_gmadr_base :: u64
  vgpu_hidden_gmadr_end :: u64
  gsm :: "nat \<Rightarrow> u64"
  gfx_flsh_cntl :: nat
  spts :: "nat \<Rightarrow> intel_vgpu_ppgtt_spt"
  guest_page_hash_table :: "nat list"
  shadow_page_hash_table :: "nat list"
  scratch_pt :: "int \<Rightarrow> u64"
  oos_page_list_head :: "nat list"
  post_shadow_list_head :: "nat list"
  mms :: "nat \<Rightarrow> intel_vgpu_mm"
  ggtt_mm :: nat
  oos_pages :: "nat \<Rightarrow> intel_vgpu_oos_page"
  oos_page_free_list_head :: "nat list"
  oos_page_use_list_head :: "nat list"
  mm_lru_list_head :: "nat list"
  scratch_ggtt_mfn :: u64

definition upd_spt ::
  "nat \<Rightarrow> (intel_vgpu_ppgtt_spt \<Rightarrow> intel_vgpu_ppgtt_spt) \<Rightarrow> gvt_state \<Rightarrow> gvt_state" where
  "upd_spt p f s = s\<lparr>spts := (spts s)(p := f (spts s p))\<rparr>"

definition upd_oos ::
  "nat \<Rightarrow> (intel_vgpu_oos_page \<Rightarrow> intel_vgpu_oos_page) \<Rightarrow> gvt_state \<Rightarrow> gvt_state" where
  "upd_oos p f s = s\<lparr>oos_pages := (oos_pages s)(p := f (oos_pages s p))\<rparr>"

definition upd_mm ::
  "nat \<Rightarrow> (intel_vgpu_mm \<Rightarrow> intel_vgpu_mm) \<Rightarrow> gvt_state \<Rightarrow> gvt_state" where
  "upd_mm p f s = s\<lparr>mms := (mms s)(p := f (mms s p))\<rparr>"

subsection \<open>Guest memory and the hypervisor service\<close>

text \<open>Eight bytes of guest memory, little-endian, and the bytes of a word.\<close>

fun le_word :: "u8 list \<Rightarrow> u64" where
  "le_word [] = 0"
| "le_word (b # bs) = ucast b OR push_bit 8 (le_word bs)"

definition le_bytes :: "u64 \<Rightarrow> u8 list" where
  "le_bytes w =
     [ucast w, ucast (drop_bit 8 w), ucast (drop_bit 16 w), ucast (drop_bit 24 w),
      ucast (drop_bit 32 w), ucast (drop_bit 40 w), ucast (drop_bit 48 w),
      ucast (drop_bit 56 w)]"

definition guest_mem64 :: "gvt_state \<Rightarrow> u64 \<Rightarrow> u64" where
  "guest_mem64 s gpa =
     le_word [guest_mem s gpa, guest_mem s (gpa + 1), guest_mem s (gpa + 2),
              guest_mem s (gpa + 3), guest_mem s (gpa + 4), guest_mem s (gpa + 5),
              guest_mem s (gpa + 6), guest_mem s (gpa + 7)]"

fun write_bytes :: "(u64 \<Rightarrow> u8) \<Rightarrow> u64 \<Rightarrow> u8 list \<Rightarrow> (u64 \<Rightarrow> u8)" where
  "write_bytes m a [] = m"
| "write_bytes m a (b # bs) = write_bytes (m(a := b)) (a + 1) bs"

definition le_bytes32 :: "u32 \<Rightarrow> u8 list" where
  "le_bytes32 w = [ucast w, ucast (drop_bit 8 w), ucast (drop_bit 16 w), ucast (drop_bit 24 w)]"

text \<open>
  Modelled from the spec: the layout of \<^verbatim>\<open>struct intel_gvt_gtt_entry\<close> of \<^verbatim>\<open>gtt.h\<close>, which
  is not among the sources: the eight bytes of \<^verbatim>\<open>val64\<close> at offset 0, the four bytes of
  the \<^verbatim>\<open>int type\<close> at offset 8, and four bytes of padding.  \<open>pad\<close> gives the content of
  the padding.
\<close>

definition entry_bytes :: "intel_gvt_gtt_entry \<Rightarrow> (nat \<Rightarrow> u8) \<Rightarrow> u8 list" where
  "entry_bytes e pad =
     le_bytes (val64 e) @ le_bytes32 (word_of_int (type e)) @ [pad 0, pad 1, pad 2, pad 3]"

text \<open>
  \<^verbatim>\<open>memcpy((void *)&e.val64 + off, p_data, bytes)\<close>: the bytes of the entry from \<open>off\<close> on
  are replaced.  A copy that runs beyond the eight bytes of the value overwrites the
  type tag of the entry, which is then the \<^verbatim>\<open>int\<close> that its four bytes make.  What is
  copied into the padding is lost; a copy beyond the sixteen bytes of the entry is out
  of bounds in C, and the model drops those bytes.
\<close>

definition memcpy_to_entry ::
  "intel_gvt_gtt_entry \<Rightarrow> nat \<Rightarrow> u8 list \<Rightarrow> intel_gvt_gtt_entry" where
  "memcpy_to_entry e off p_data =
     (let old = le_bytes (val64 e) @ le_bytes32 (word_of_int (type e));
          new = take 12 (take off old @ p_data @ drop (off + length p_data) old)
      in if off + length p_data \<le> 8 then e\<lparr>val64 := le_word (take 8 new)\<rparr>
         else e\<lparr>val64 := le_word (take 8 new),
                type := sint (ucast (le_word (drop 8 new)) :: u32)\<rparr>)"

text \<open>
  \<^verbatim>\<open>memcpy(p_data, (void *)&e.val64 + off, bytes)\<close>: the bytes of the entry from \<open>off\<close> on,
  which are bytes of the type tag and of the padding where the copy runs beyond the
  value.  A copy beyond the sixteen bytes of the entry is out of bounds in C, and the
  model gives the bytes up to there.
\<close>

definition memcpy_from_entry ::
  "intel_gvt_gtt_entry \<Rightarrow> (nat \<Rightarrow> u8) \<Rightarrow> nat \<Rightarrow> nat \<Rightarrow> u8 list" where
  "memcpy_from_entry e pad off bytes = take bytes (drop off (entry_bytes e pad))"

definition intel_gvt_hypervisor_write_gpa ::
  "u64 \<Rightarrow> u8 list \<Rightarrow> gvt_state \<Rightarrow> int \<times> gvt_state" where
  "intel_gvt_hypervisor_write_gpa gpa buf s =
     (if hv_write_gpa_ret s gpa \<noteq> 0 then (hv_write_gpa_ret s gpa, s)
      else (0, s\<lparr>guest_mem := write_bytes (guest_mem s) gpa buf\<rparr>))"

definition intel_gvt_hypervisor_gfn_to_mfn :: "gvt_state \<Rightarrow> u64 \<Rightarrow> u64" where
  "intel_gvt_hypervisor_gfn_to_mfn s gfn = hv_gfn_to_mfn s gfn"

definition intel_gvt_hypervisor_set_wp_page :: "nat \<Rightarrow> gvt_state \<Rightarrow> int \<times> gvt_state" where
  "intel_gvt_hypervisor_set_wp_page p s =
     (let ret = hv_set_wp_ret s (guest_page_gfn (spts s p)) in
      if ret \<noteq> 0 then (ret, s)
      else (0, upd_spt p (\<lambda>x. x\<lparr>guest_page_writeprotection := True\<rparr>) s))"

definition intel_gvt_hypervisor_unset_wp_page :: "nat \<Rightarrow> gvt_state \<Rightarrow> int \<times> gvt_state" where
  "intel_gvt_hypervisor_unset_wp_page p s =
     (let ret = hv_unset_wp_ret s (guest_page_gfn (spts s p)) in
      if ret \<noteq> 0 then (ret, s)
      else (0, upd_spt p (\<lambda>x. x\<lparr>guest_page_writeprotection := False\<rparr>) s))"

definition vgpu_gmadr_is_aperture :: "gvt_state \<Rightarrow> u64 \<Rightarrow> bool" where
  "vgpu_gmadr_is_aperture s gmadr \<longleftrightarrow>
     gmadr \<ge> vgpu_aperture_gmadr_base s \<and> gmadr \<le> vgpu_aperture_gmadr_end s"

definition vgpu_gmadr_is_hidden :: "gvt_state \<Rightarrow> u64 \<Rightarrow> bool" where
  "vgpu_gmadr_is_hidden s gmadr \<longleftrightarrow>
     gmadr \<ge> vgpu_hidden_gmadr_base s \<and> gmadr \<le> vgpu_hidden_gmadr_end s"

definition vgpu_gmadr_is_valid :: "gvt_state \<Rightarrow> u64 \<Rightarrow> bool" where
  "vgpu_gmadr_is_valid s gmadr \<longleftrightarrow> vgpu_gmadr_is_aperture s gmadr \<or> vgpu_gmadr_is_hidden s gmadr"

subsection \<open>Reading and writing entries\<close>

definition read_pte64 :: "gvt_state \<Rightarrow> nat \<Rightarrow> u64" where
  "read_pte64 s index = gsm s index"

definition gtt_invalidate :: "gvt_state \<Rightarrow> gvt_state" where
  "gtt_invalidate s = s\<lparr>gfx_flsh_cntl := Suc (gfx_flsh_cntl s)\<rparr>"

definition write_pte64 :: "nat \<Rightarrow> u64 \<Rightarrow> gvt_state \<Rightarrow> gvt_state" where
  "write_pte64 index pte s = s\<lparr>gsm := (gsm s)(index := pte)\<rparr>"

text \<open>\<^verbatim>\<open>*((u64 *)pt + index)\<close>, read and written, for a pointer that is not \<^verbatim>\<open>NULL\<close>.\<close>

definition pt_read :: "pt_ptr \<Rightarrow> nat \<Rightarrow> gvt_state \<Rightarrow> u64" where
  "pt_read pt index s =
     (case pt of
        PT_NULL \<Rightarrow> 0
      | PT_shadow_page p \<Rightarrow> shadow_page_vaddr (spts s p) index
      | PT_oos_mem p \<Rightarrow> oos_mem (oos_pages s p) index
      | PT_mm_virtual p \<Rightarrow>
          (case virtual_page_table (mms s p) of None \<Rightarrow> 0 | Some f \<Rightarrow> f index)
      | PT_mm_shadow p \<Rightarrow>
          (case shadow_page_table (mms s p) of None \<Rightarrow> 0 | Some f \<Rightarrow> f index))"

definition pt_write :: "pt_ptr \<Rightarrow> nat \<Rightarrow> u64 \<Rightarrow> gvt_state \<Rightarrow> gvt_state" where
  "pt_write pt index v s =
     (case pt of
        PT_NULL \<Rightarrow> s
      | PT_shadow_page p \<Rightarrow>
          upd_spt p (\<lambda>x. x\<lparr>shadow_page_vaddr := (shadow_page_vaddr x)(index := v)\<rparr>) s
      | PT_oos_mem p \<Rightarrow> upd_oos p (\<lambda>x. x\<lparr>oos_mem := (oos_mem x)(index := v)\<rparr>) s
      | PT_mm_virtual p \<Rightarrow>
          upd_mm p (\<lambda>x. x\<lparr>virtual_page_table :=
            map_option (\<lambda>f. f(index := v)) (virtual_page_table x)\<rparr>) s
      | PT_mm_shadow p \<Rightarrow>
          upd_mm p (\<lambda>x. x\<lparr>shadow_page_table :=
            map_option (\<lambda>f. f(index := v)) (shadow_page_table x)\<rparr>) s)"

text \<open>
  The page of guest entries that \<^verbatim>\<open>vgpu->cached_guest_entry\<close> holds after a read of
  \<^verbatim>\<open>GTT_PAGE_SIZE\<close> bytes at \<open>gpa\<close>.
\<close>

definition read_guest_page :: "gvt_state \<Rightarrow> u64 \<Rightarrow> (nat \<Rightarrow> u64) \<Rightarrow> (nat \<Rightarrow> u64)" where
  "read_guest_page s gpa old =
     (\<lambda>k. if k < GTT_PAGE_SIZE div 8 then guest_mem64 s (gpa + of_nat (8 * k)) else old k)"

definition gtt_get_entry64 ::
  "pt_ptr \<Rightarrow> intel_gvt_gtt_entry \<Rightarrow> nat \<Rightarrow> bool \<Rightarrow> u64 \<Rightarrow> gvt_state
     \<Rightarrow> int \<times> intel_gvt_gtt_entry \<times> gvt_state" where
  "gtt_get_entry64 pt e index hypervisor_access gpa s =
     (if gtt_entry_size s \<noteq> 8 then (- EINVAL, e, s)
      else if hypervisor_access then
        (case (if ge_cache_enable s then cached_guest_entry s else None) of
           Some cache \<Rightarrow>
             if index = 0 then
               (if hv_read_gpa_ret s gpa \<noteq> 0 then (hv_read_gpa_ret s gpa, e, s)
                else
                  let cache' = read_guest_page s gpa cache in
                  (0, e\<lparr>val64 := cache' index\<rparr>, s\<lparr>cached_guest_entry := Some cache'\<rparr>))
             else (0, e\<lparr>val64 := cache index\<rparr>, s)
         | None \<Rightarrow>
             let a = gpa + push_bit (gtt_entry_size_shift s) (of_nat index) in
             if hv_read_gpa_ret s a \<noteq> 0 then (hv_read_gpa_ret s a, e, s)
             else (0, e\<lparr>val64 := guest_mem64 s a\<rparr>, s))
      else if pt = PT_NULL then (0, e\<lparr>val64 := read_pte64 s index\<rparr>, s)
      else (0, e\<lparr>val64 := pt_read pt index s\<rparr>, s))"

definition gtt_get_entry64__BKL ::
  "pt_ptr \<Rightarrow> intel_gvt_gtt_entry \<Rightarrow> nat \<Rightarrow> bool \<Rightarrow> u64 \<Rightarrow> gvt_state
     \<Rightarrow> int \<times> intel_gvt_gtt_entry \<times> gvt_state" where
  "gtt_get_entry64__BKL pt e index hypervisor_access gpa s =
     (if \<not> stop_machine_path s \<or> hypervisor_access \<or> pt \<noteq> PT_NULL then
        gtt_get_entry64 pt e index hypervisor_access gpa s
      else
        (case gtt_get_entry64 pt e index hypervisor_access gpa s of
           (ret, e', s') \<Rightarrow> (0, e', s')))"

definition gtt_set_entry64 ::
  "pt_ptr \<Rightarrow> intel_gvt_gtt_entry \<Rightarrow> nat \<Rightarrow> bool \<Rightarrow> u64 \<Rightarrow> gvt_state \<Rightarrow> int \<times> gvt_state" where
  "gtt_set_entry64 pt e index hypervisor_access gpa s =
     (if gtt_entry_size s \<noteq> 8 then (- EINVAL, s)
      else if hypervisor_access then
        intel_gvt_hypervisor_write_gpa
          (gpa + push_bit (gtt_entry_size_shift s) (of_nat index)) (le_bytes (val64 e)) s
      else if pt = PT_NULL then (0, write_pte64 index (val64 e) s)
      else (0, pt_write pt index (val64 e) s))"

definition gtt_set_entry64__BKL ::
  "pt_ptr \<Rightarrow> intel_gvt_gtt_entry \<Rightarrow> nat \<Rightarrow> bool \<Rightarrow> u64 \<Rightarrow> gvt_state \<Rightarrow> int \<times> gvt_state" where
  "gtt_set_entry64__BKL pt e index hypervisor_access gpa s =
     (if \<not> stop_machine_path s \<or> hypervisor_access \<or> pt \<noteq> PT_NULL then
        gtt_set_entry64 pt e index hypervisor_access gpa s
      else (0, snd (gtt_set_entry64 pt e index hypervisor_access gpa s)))"

text \<open>
  \<^verbatim>\<open>gtt_entry_p2m\<close>, with its two static variables in the state.  The result is the
  status and the entry \<^verbatim>\<open>*m\<close>.
\<close>

definition gtt_entry_p2m ::
  "intel_gvt_gtt_entry \<Rightarrow> gvt_state \<Rightarrow> int \<times> intel_gvt_gtt_entry \<times> gvt_state" where
  "gtt_entry_p2m p s =
     (let m = p in
      if \<not> gen8_gtt_test_present p then (0, m, s)
      else
        let gfn = gen8_gtt_get_pfn p;
            mfn = (if gfn \<noteq> saved_gfn s then intel_gvt_hypervisor_gfn_to_mfn s gfn
                   else saved_mfn s)
        in
        if mfn = INTEL_GVT_INVALID_ADDR then (- ENXIO, m, s)
        else (0, gen8_gtt_set_pfn m mfn, s\<lparr>saved_gfn := gfn, saved_mfn := mfn\<rparr>))"

subsection \<open>MM helpers\<close>

definition intel_vgpu_mm_get_entry ::
  "nat \<Rightarrow> pt_ptr \<Rightarrow> intel_gvt_gtt_entry \<Rightarrow> nat \<Rightarrow> gvt_state
     \<Rightarrow> int \<times> intel_gvt_gtt_entry \<times> gvt_state" where
  "intel_vgpu_mm_get_entry mm page_table e index s =
     (let e1 = e\<lparr>type := page_table_entry_type (mms s mm)\<rparr> in
      case gtt_get_entry64__BKL page_table e1 index False 0 s of
        (ret, e2, s') \<Rightarrow>
          if ret \<noteq> 0 then (ret, e2, s')
          else (0, snd (gen8_gtt_test_pse e2), s'))"

definition intel_vgpu_mm_set_entry ::
  "nat \<Rightarrow> pt_ptr \<Rightarrow> intel_gvt_gtt_entry \<Rightarrow> nat \<Rightarrow> gvt_state \<Rightarrow> int \<times> gvt_state" where
  "intel_vgpu_mm_set_entry mm page_table e index s =
     gtt_set_entry64__BKL page_table e index False 0 s"

text \<open>
  Modelled from the spec: the accessor macros of \<^verbatim>\<open>gtt.h\<close>.  The guest side of an mm is
  its \<^verbatim>\<open>virtual_page_table\<close>, the shadow side its \<^verbatim>\<open>shadow_page_table\<close>; the GGTT mm has
  no shadow buffer, its shadow is the GGTT of the hardware.
\<close>

definition mm_virtual_page_table :: "gvt_state \<Rightarrow> nat \<Rightarrow> pt_ptr" where
  "mm_virtual_page_table s mm =
     (case virtual_page_table (mms s mm) of None \<Rightarrow> PT_NULL | Some f \<Rightarrow> PT_mm_virtual mm)"

definition mm_shadow_page_table :: "gvt_state \<Rightarrow> nat \<Rightarrow> pt_ptr" where
  "mm_shadow_page_table s mm =
     (case shadow_page_table (mms s mm) of None \<Rightarrow> PT_NULL | Some f \<Rightarrow> PT_mm_shadow mm)"

definition ggtt_get_guest_entry ::
  "nat \<Rightarrow> intel_gvt_gtt_entry \<Rightarrow> nat \<Rightarrow> gvt_state \<Rightarrow> int \<times> intel_gvt_gtt_entry \<times> gvt_state" where
  "ggtt_get_guest_entry mm e index s =
     intel_vgpu_mm_get_entry mm (mm_virtual_page_table s mm) e index s"

definition ggtt_set_guest_entry ::
  "nat \<Rightarrow> intel_gvt_gtt_entry \<Rightarrow> nat \<Rightarrow> gvt_state \<Rightarrow> int \<times> gvt_state" where
  "ggtt_set_guest_entry mm e index s =
     intel_vgpu_mm_set_entry mm (mm_virtual_page_table s mm) e index s"

definition ggtt_set_shadow_entry ::
  "nat \<Rightarrow> intel_gvt_gtt_entry \<Rightarrow> nat \<Rightarrow> gvt_state \<Rightarrow> int \<times> gvt_state" where
  "ggtt_set_shadow_entry mm e index s =
     intel_vgpu_mm_set_entry mm (mm_shadow_page_table s mm) e index s"

definition ppgtt_get_guest_root_entry ::
  "nat \<Rightarrow> intel_gvt_gtt_entry \<Rightarrow> nat \<Rightarrow> gvt_state \<Rightarrow> int \<times> intel_gvt_gtt_entry \<times> gvt_state" where
  "ppgtt_get_guest_root_entry mm e index s =
     intel_vgpu_mm_get_entry mm (mm_virtual_page_table s mm) e index s"

definition ppgtt_get_shadow_root_entry ::
  "nat \<Rightarrow> intel_gvt_gtt_entry \<Rightarrow> nat \<Rightarrow> gvt_state \<Rightarrow> int \<times> intel_gvt_gtt_entry \<times> gvt_state" where
  "ppgtt_get_shadow_root_entry mm e index s =
     intel_vgpu_mm_get_entry mm (mm_shadow_page_table s mm) e index s"

definition ppgtt_set_shadow_root_entry ::
  "nat \<Rightarrow> intel_gvt_gtt_entry \<Rightarrow> nat \<Rightarrow> gvt_state \<Rightarrow> int \<times> gvt_state" where
  "ppgtt_set_shadow_root_entry mm e index s =
     intel_vgpu_mm_set_entry mm (mm_shadow_page_table s mm) e index s"

subsection \<open>PPGTT shadow page table helpers\<close>

definition ppgtt_spt_get_entry ::
  "nat \<Rightarrow> pt_ptr \<Rightarrow> int \<Rightarrow> intel_gvt_gtt_entry \<Rightarrow> nat \<Rightarrow> bool \<Rightarrow> gvt_state
     \<Rightarrow> int \<times> intel_gvt_gtt_entry \<times> gvt_state" where
  "ppgtt_spt_get_entry spt page_table t e index guest s =
     (let e1 = e\<lparr>type := get_entry_type t\<rparr> in
      if \<not> gtt_type_is_entry (type e1) then (- EINVAL, e1, s)
      else
        case gtt_get_entry64__BKL page_table e1 index guest
               (push_bit GTT_PAGE_SHIFT (guest_page_gfn (spts s spt))) s of
          (ret, e2, s') \<Rightarrow>
            if ret \<noteq> 0 then (ret, e2, s')
            else (0, snd (gen8_gtt_test_pse e2), s'))"

definition ppgtt_spt_set_entry ::
  "nat \<Rightarrow> pt_ptr \<Rightarrow> int \<Rightarrow> intel_gvt_gtt_entry \<Rightarrow> nat \<Rightarrow> bool \<Rightarrow> gvt_state
     \<Rightarrow> int \<times> gvt_state" where
  "ppgtt_spt_set_entry spt page_table t e index guest s =
     (if \<not> gtt_type_is_entry (type e) then (- EINVAL, s)
      else gtt_set_entry64__BKL page_table e index guest
             (push_bit GTT_PAGE_SHIFT (guest_page_gfn (spts s spt))) s)"

definition ppgtt_get_guest_entry ::
  "nat \<Rightarrow> intel_gvt_gtt_entry \<Rightarrow> nat \<Rightarrow> gvt_state \<Rightarrow> int \<times> intel_gvt_gtt_entry \<times> gvt_state" where
  "ppgtt_get_guest_entry spt e index s =
     ppgtt_spt_get_entry spt PT_NULL (guest_page_type (spts s spt)) e index True s"

definition ppgtt_get_shadow_entry ::
  "nat \<Rightarrow> intel_gvt_gtt_entry \<Rightarrow> nat \<Rightarrow> gvt_state \<Rightarrow> int \<times> intel_gvt_gtt_entry \<times> gvt_state" where
  "ppgtt_get_shadow_entry spt e index s =
     ppgtt_spt_get_entry spt (PT_shadow_page spt) (shadow_page_type (spts s spt)) e index False s"

definition ppgtt_set_shadow_entry ::
  "nat \<Rightarrow> intel_gvt_gtt_entry \<Rightarrow> nat \<Rightarrow> gvt_state \<Rightarrow> int \<times> gvt_state" where
  "ppgtt_set_shadow_entry spt e index s =
     ppgtt_spt_set_entry spt (PT_shadow_page spt) (shadow_page_type (spts s spt)) e index False s"


subsection \<open>Guest pages and shadow pages\<close>

text \<open>
  A result of \<open>None\<close> says that the C function has no defined result: it dereferences
  a pointer that is \<^verbatim>\<open>NULL\<close> or was never a pointer, or (for the functions with a
  \<open>fuel\<close> argument) the recursion was cut before it returned.
\<close>

definition intel_vgpu_init_guest_page :: "nat \<Rightarrow> u64 \<Rightarrow> gvt_state \<Rightarrow> int \<times> gvt_state" where
  "intel_vgpu_init_guest_page p gfn s =
     (let s1 = upd_spt p (\<lambda>x. x\<lparr>guest_page_writeprotection := False, guest_page_gfn := gfn,
                                  guest_page_oos_page := None, guest_page_write_cnt := 0\<rparr>) s
      in (0, s1\<lparr>guest_page_hash_table := p # guest_page_hash_table s1\<rparr>))"

definition detach_oos_page :: "nat \<Rightarrow> gvt_state \<Rightarrow> (int \<times> gvt_state) option" where
  "detach_oos_page oos_page s =
     (case oos_guest_page (oos_pages s oos_page) of
        None \<Rightarrow> None
      | Some gp \<Rightarrow>
          let s1 = upd_spt gp (\<lambda>x. x\<lparr>guest_page_write_cnt := 0, guest_page_oos_page := None\<rparr>) s;
              s2 = upd_oos oos_page (\<lambda>x. x\<lparr>oos_guest_page := None\<rparr>) s1;
              s3 = s2\<lparr>oos_page_list_head := removeAll oos_page (oos_page_list_head s2)\<rparr>
          in Some (0, s3\<lparr>oos_page_use_list_head := removeAll oos_page (oos_page_use_list_head s3),
                         oos_page_free_list_head :=
                           removeAll oos_page (oos_page_free_list_head s3) @ [oos_page]\<rparr>))"

definition intel_vgpu_clean_guest_page :: "nat \<Rightarrow> gvt_state \<Rightarrow> gvt_state option" where
  "intel_vgpu_clean_guest_page p s =
     (let s1 = s\<lparr>guest_page_hash_table := removeAll p (guest_page_hash_table s)\<rparr> in
      case (case guest_page_oos_page (spts s1 p) of
              None \<Rightarrow> Some (0, s1)
            | Some oos_page \<Rightarrow> detach_oos_page oos_page s1) of
        None \<Rightarrow> None
      | Some (r, s2) \<Rightarrow>
          if guest_page_writeprotection (spts s2 p)
          then Some (snd (intel_gvt_hypervisor_unset_wp_page p s2))
          else Some s2)"

definition intel_vgpu_find_guest_page :: "gvt_state \<Rightarrow> u64 \<Rightarrow> nat option" where
  "intel_vgpu_find_guest_page s gfn =
     find (\<lambda>p. guest_page_gfn (spts s p) = gfn) (guest_page_hash_table s)"

definition init_shadow_page :: "nat \<Rightarrow> int \<Rightarrow> gvt_state \<Rightarrow> int \<times> gvt_state" where
  "init_shadow_page p t s =
     (case shadow_page_page (spts s p) of
        None \<Rightarrow> (- EINVAL, s)
      | Some daddr \<Rightarrow>
          let s1 = upd_spt p (\<lambda>x. x\<lparr>shadow_page_type := t,
                                     shadow_page_mfn := drop_bit GTT_PAGE_SHIFT daddr\<rparr>) s
          in (0, s1\<lparr>shadow_page_hash_table := p # shadow_page_hash_table s1\<rparr>))"

definition clean_shadow_page :: "nat \<Rightarrow> gvt_state \<Rightarrow> gvt_state" where
  "clean_shadow_page p s = s\<lparr>shadow_page_hash_table := removeAll p (shadow_page_hash_table s)\<rparr>"

definition find_shadow_page :: "gvt_state \<Rightarrow> u64 \<Rightarrow> nat option" where
  "find_shadow_page s mfn =
     find (\<lambda>p. shadow_page_mfn (spts s p) = mfn) (shadow_page_hash_table s)"

text \<open>What \<^verbatim>\<open>kzalloc\<close> and \<^verbatim>\<open>alloc_page\<close> with \<^verbatim>\<open>__GFP_ZERO\<close> return: all fields zero.\<close>

definition zeroed_spt :: intel_vgpu_ppgtt_spt where
  "zeroed_spt =
     \<lparr>shadow_page_page = None, shadow_page_vaddr = (\<lambda>k. 0), shadow_page_type = 0,
      shadow_page_mfn = 0, guest_page_writeprotection = False, guest_page_gfn = 0,
      guest_page_write_cnt = 0, guest_page_oos_page = None, guest_page_type = 0,
      refcount = 0, post_shadow_bitmap = {}\<rparr>"

definition alloc_spt :: "gvt_state \<Rightarrow> nat option \<times> gvt_state" where
  "alloc_spt s =
     (case page_allocator s of
        [] \<Rightarrow> (None, s)
      | NoMemory # rest \<Rightarrow> (None, s\<lparr>page_allocator := rest\<rparr>)
      | Page d # rest \<Rightarrow>
          (Some (next_spt s),
           s\<lparr>page_allocator := rest, next_spt := Suc (next_spt s),
             spts := (spts s)(next_spt s := zeroed_spt\<lparr>shadow_page_page := d\<rparr>)\<rparr>))"

definition ppgtt_free_shadow_page :: "nat \<Rightarrow> gvt_state \<Rightarrow> gvt_state option" where
  "ppgtt_free_shadow_page spt s =
     (case intel_vgpu_clean_guest_page spt (clean_shadow_page spt s) of
        None \<Rightarrow> None
      | Some s1 \<Rightarrow> Some (s1\<lparr>post_shadow_list_head := removeAll spt (post_shadow_list_head s1)\<rparr>))"

definition ppgtt_find_shadow_page :: "gvt_state \<Rightarrow> u64 \<Rightarrow> nat option" where
  "ppgtt_find_shadow_page s mfn = find_shadow_page s mfn"

definition pt_entries :: "gvt_state \<Rightarrow> nat" where
  "pt_entries s = drop_bit (gtt_entry_size_shift s) GTT_PAGE_SIZE"

text \<open>
  The loop of \<^verbatim>\<open>for_each_present_guest_entry\<close> and \<^verbatim>\<open>for_each_present_shadow_entry\<close>
  over the indices \<open>is\<close>: the entry is read with \<open>get\<close> and the body runs where the
  read succeeded and the entry is present.  Every body of the source leaves its loop
  exactly when it has a status other than 0, which is then the status of the function.
\<close>

fun for_each_present_entry ::
  "(intel_gvt_gtt_entry \<Rightarrow> nat \<Rightarrow> gvt_state \<Rightarrow> int \<times> intel_gvt_gtt_entry \<times> gvt_state)
   \<Rightarrow> (intel_gvt_gtt_entry \<Rightarrow> nat \<Rightarrow> gvt_state \<Rightarrow> (int \<times> gvt_state) option)
   \<Rightarrow> nat list \<Rightarrow> intel_gvt_gtt_entry \<Rightarrow> gvt_state \<Rightarrow> (int \<times> gvt_state) option" where
  "for_each_present_entry get body [] e s = Some (0, s)"
| "for_each_present_entry get body (i # is) e s =
     (case get e i s of
        (r, e', s') \<Rightarrow>
          if r = 0 \<and> gen8_gtt_test_present e' then
            (case body e' i s' of
               None \<Rightarrow> None
             | Some (ret, s'') \<Rightarrow>
                 if ret \<noteq> 0 then Some (ret, s'')
                 else for_each_present_entry get body is e' s'')
          else for_each_present_entry get body is e' s')"

definition ppgtt_get_shadow_page :: "nat \<Rightarrow> gvt_state \<Rightarrow> gvt_state" where
  "ppgtt_get_shadow_page spt s = upd_spt spt (\<lambda>x. x\<lparr>refcount := refcount x + 1\<rparr>) s"

text \<open>
  \<^verbatim>\<open>ppgtt_invalidate_shadow_page_by_shadow_entry\<close> and \<^verbatim>\<open>ppgtt_invalidate_shadow_page\<close>
  call each other.  Nothing in the code bounds the depth of the recursion (it follows
  the frames that shadow entries hold), so the model takes \<open>fuel\<close>: the number of nested
  calls of \<^verbatim>\<open>ppgtt_invalidate_shadow_page\<close> that may still be made.  The first function
  is written over the second, \<open>invalidate\<close>.
\<close>

definition invalidate_by_shadow_entry ::
  "(nat \<Rightarrow> gvt_state \<Rightarrow> (int \<times> gvt_state) option) \<Rightarrow> intel_gvt_gtt_entry \<Rightarrow> gvt_state
     \<Rightarrow> (int \<times> gvt_state) option" where
  "invalidate_by_shadow_entry invalidate e s =
     (if \<not> gtt_type_is_pt (get_next_pt_type (type e)) then Some (- EINVAL, s)
      else
        let not_root = (type e \<noteq> GTT_TYPE_PPGTT_ROOT_L3_ENTRY
                        \<and> type e \<noteq> GTT_TYPE_PPGTT_ROOT_L4_ENTRY);
            cur_pt_type = get_next_pt_type (type e) + 1
        in
        if not_root \<and> (cur_pt_type \<le> GTT_TYPE_INVALID \<or> cur_pt_type \<ge> GTT_TYPE_MAX)
        then Some (- EINVAL, s)
        else if not_root \<and> gen8_gtt_get_pfn e = scratch_pt s cur_pt_type then Some (0, s)
        else
          (case ppgtt_find_shadow_page s (gen8_gtt_get_pfn e) of
             None \<Rightarrow> Some (- ENXIO, s)
           | Some p \<Rightarrow> invalidate p s))"

primrec ppgtt_invalidate_shadow_page ::
  "nat \<Rightarrow> nat \<Rightarrow> gvt_state \<Rightarrow> (int \<times> gvt_state) option" where
  "ppgtt_invalidate_shadow_page 0 spt s = None"
| "ppgtt_invalidate_shadow_page (Suc fuel) spt s =
     (let s1 = upd_spt spt (\<lambda>x. x\<lparr>refcount := refcount x - 1\<rparr>) s in
      if 0 <s refcount (spts s1 spt) then Some (0, s1)
      else
        case (if gtt_type_is_pte_pt (shadow_page_type (spts s1 spt)) then Some (0, s1)
              else
                for_each_present_entry (ppgtt_get_shadow_entry spt)
                  (\<lambda>e index s'.
                     if \<not> gtt_type_is_pt (get_next_pt_type (type e)) then Some (- EINVAL, s')
                     else invalidate_by_shadow_entry (ppgtt_invalidate_shadow_page fuel) e s')
                  [0..<pt_entries s1] (uninit_entry s1) s1) of
          None \<Rightarrow> None
        | Some (ret, s2) \<Rightarrow>
            if ret \<noteq> 0 then Some (ret, s2)
            else
              (case ppgtt_free_shadow_page spt s2 of
                 None \<Rightarrow> None
               | Some s3 \<Rightarrow> Some (0, s3)))"

definition ppgtt_invalidate_shadow_page_by_shadow_entry ::
  "nat \<Rightarrow> intel_gvt_gtt_entry \<Rightarrow> gvt_state \<Rightarrow> (int \<times> gvt_state) option" where
  "ppgtt_invalidate_shadow_page_by_shadow_entry fuel e s =
     invalidate_by_shadow_entry (ppgtt_invalidate_shadow_page fuel) e s"

subsection \<open>Reclaiming an mm\<close>

definition invalidate_mm_pv :: "nat \<Rightarrow> gvt_state \<Rightarrow> gvt_state" where
  "invalidate_mm_pv mm s =
     (if page_table_level (mms s mm) \<noteq> 4 then s
      else
        case ppgtt_get_shadow_root_entry mm (uninit_entry s) 0 s of
          (r, se, s1) \<Rightarrow>
            if \<not> gen8_gtt_test_present se then s1
            else
              let s2 = snd (ppgtt_set_shadow_root_entry mm (se\<lparr>val64 := 0\<rparr>) 0 s1)
              in upd_mm mm (\<lambda>x. x\<lparr>shadowed := False\<rparr>) s2)"

fun invalidate_mm_loop ::
  "nat \<Rightarrow> nat \<Rightarrow> nat list \<Rightarrow> intel_gvt_gtt_entry \<Rightarrow> gvt_state \<Rightarrow> gvt_state option" where
  "invalidate_mm_loop fuel mm [] se s = Some s"
| "invalidate_mm_loop fuel mm (i # is) se s =
     (case ppgtt_get_shadow_root_entry mm se i s of
        (r, se1, s1) \<Rightarrow>
          if \<not> gen8_gtt_test_present se1 then invalidate_mm_loop fuel mm is se1 s1
          else
            (case ppgtt_invalidate_shadow_page_by_shadow_entry fuel se1 s1 of
               None \<Rightarrow> None
             | Some (ret, s2) \<Rightarrow>
                 let se2 = se1\<lparr>val64 := 0\<rparr>;
                     s3 = snd (ppgtt_set_shadow_root_entry mm se2 i s2)
                 in invalidate_mm_loop fuel mm is se2 s3))"

definition invalidate_mm :: "nat \<Rightarrow> nat \<Rightarrow> gvt_state \<Rightarrow> gvt_state option" where
  "invalidate_mm fuel mm s =
     (if \<not> has_shadow_page_table (mms s mm) \<or> \<not> shadowed (mms s mm) then Some s
      else if pvmmio_ppgtt_update s then Some (invalidate_mm_pv mm s)
      else
        case invalidate_mm_loop fuel mm [0..<page_table_entry_cnt (mms s mm)]
               (uninit_entry s) s of
          None \<Rightarrow> None
        | Some s1 \<Rightarrow> Some (upd_mm mm (\<lambda>x. x\<lparr>shadowed := False\<rparr>) s1))"

definition reclaim_one_mm :: "nat \<Rightarrow> gvt_state \<Rightarrow> (int \<times> gvt_state) option" where
  "reclaim_one_mm fuel s =
     (case find (\<lambda>mm. mm_type (mms s mm) = INTEL_GVT_MM_PPGTT \<and> pincount (mms s mm) = 0)
             (mm_lru_list_head s) of
        None \<Rightarrow> Some (0, s)
      | Some mm \<Rightarrow>
          (case invalidate_mm fuel mm
                  (s\<lparr>mm_lru_list_head := removeAll mm (mm_lru_list_head s)\<rparr>) of
             None \<Rightarrow> None
           | Some s1 \<Rightarrow> Some (1, s1)))"


subsection \<open>Reclaiming leaves the LRU list shorter\<close>

text \<open>
  None of the functions below \<^verbatim>\<open>reclaim_one_mm\<close> touches the LRU list of the mms, so a
  reclamation that found an mm leaves the list shorter.  This bounds the retry loop of
  \<^verbatim>\<open>ppgtt_alloc_shadow_page\<close>.
\<close>

lemma lru_upd_spt [simp]: "mm_lru_list_head (upd_spt p f s) = mm_lru_list_head s"
  by (simp add: upd_spt_def)
lemma lru_upd_oos [simp]: "mm_lru_list_head (upd_oos p f s) = mm_lru_list_head s"
  by (simp add: upd_oos_def)
lemma lru_upd_mm [simp]: "mm_lru_list_head (upd_mm p f s) = mm_lru_list_head s"
  by (simp add: upd_mm_def)
lemma lru_pt_write [simp]: "mm_lru_list_head (pt_write pt i v s) = mm_lru_list_head s"
  by (simp add: pt_write_def split: pt_ptr.splits)

lemma lru_gtt_get_entry64:
  "gtt_get_entry64 pt e i h g s = (r, e', s') \<Longrightarrow> mm_lru_list_head s' = mm_lru_list_head s"
  by (auto simp: gtt_get_entry64_def Let_def split: if_splits option.splits)

lemma lru_gtt_get_entry64__BKL:
  "gtt_get_entry64__BKL pt e i h g s = (r, e', s') \<Longrightarrow> mm_lru_list_head s' = mm_lru_list_head s"
  by (auto simp: gtt_get_entry64__BKL_def split: if_splits prod.splits dest: lru_gtt_get_entry64)

lemma lru_write_gpa:
  "intel_gvt_hypervisor_write_gpa g b s = (r, s') \<Longrightarrow> mm_lru_list_head s' = mm_lru_list_head s"
  by (auto simp: intel_gvt_hypervisor_write_gpa_def split: if_splits)

lemma lru_gtt_set_entry64:
  "gtt_set_entry64 pt e i h g s = (r, s') \<Longrightarrow> mm_lru_list_head s' = mm_lru_list_head s"
  by (auto simp: gtt_set_entry64_def write_pte64_def split: if_splits dest: lru_write_gpa)

lemma lru_gtt_set_entry64__BKL:
  "gtt_set_entry64__BKL pt e i h g s = (r, s') \<Longrightarrow> mm_lru_list_head s' = mm_lru_list_head s"
  by (auto simp: gtt_set_entry64__BKL_def split: if_splits dest: lru_gtt_set_entry64 intro: lru_gtt_set_entry64[OF surjective_pairing])

lemma lru_ppgtt_get_shadow_entry:
  "ppgtt_get_shadow_entry spt e i s = (r, e', s') \<Longrightarrow> mm_lru_list_head s' = mm_lru_list_head s"
  by (auto simp: ppgtt_get_shadow_entry_def ppgtt_spt_get_entry_def Let_def
      split: if_splits prod.splits dest: lru_gtt_get_entry64__BKL)

lemma lru_mm_get_entry:
  "intel_vgpu_mm_get_entry mm pt e i s = (r, e', s') \<Longrightarrow> mm_lru_list_head s' = mm_lru_list_head s"
  by (auto simp: intel_vgpu_mm_get_entry_def Let_def
      split: if_splits prod.splits dest: lru_gtt_get_entry64__BKL)

lemma lru_mm_set_entry:
  "intel_vgpu_mm_set_entry mm pt e i s = (r, s') \<Longrightarrow> mm_lru_list_head s' = mm_lru_list_head s"
  by (auto simp: intel_vgpu_mm_set_entry_def dest: lru_gtt_set_entry64__BKL)

lemma lru_unset_wp:
  "intel_gvt_hypervisor_unset_wp_page p s = (r, s') \<Longrightarrow> mm_lru_list_head s' = mm_lru_list_head s"
  by (auto simp: intel_gvt_hypervisor_unset_wp_page_def Let_def split: if_splits)

lemma lru_detach:
  "detach_oos_page p s = Some (r, s') \<Longrightarrow> mm_lru_list_head s' = mm_lru_list_head s"
  by (auto simp: detach_oos_page_def Let_def split: option.splits)

lemma lru_clean_guest_page:
  "intel_vgpu_clean_guest_page p s = Some s' \<Longrightarrow> mm_lru_list_head s' = mm_lru_list_head s"
  by (auto simp: intel_vgpu_clean_guest_page_def Let_def split: option.splits if_splits
      dest!: lru_detach simp: lru_unset_wp[OF surjective_pairing])

lemma lru_free_shadow_page:
  "ppgtt_free_shadow_page p s = Some s' \<Longrightarrow> mm_lru_list_head s' = mm_lru_list_head s"
  by (auto simp: ppgtt_free_shadow_page_def clean_shadow_page_def split: option.splits
      dest!: lru_clean_guest_page)

lemma lru_for_each:
  assumes g: "\<And>e i s r e' s'. get e i s = (r, e', s') \<Longrightarrow> mm_lru_list_head s' = mm_lru_list_head s"
    and b: "\<And>e i s r s'. body e i s = Some (r, s') \<Longrightarrow> mm_lru_list_head s' = mm_lru_list_head s"
  shows "for_each_present_entry get body is e s = Some (r, s') \<Longrightarrow>
         mm_lru_list_head s' = mm_lru_list_head s"
proof (induction "is" arbitrary: e s)
  case Nil
  then show ?case by simp
next
  case (Cons i "is")
  obtain r1 e1 s1 where g1: "get e i s = (r1, e1, s1)" by (cases "get e i s") auto
  note l1 = g[OF g1]
  show ?case
  proof (cases "r1 = 0 \<and> gen8_gtt_test_present e1")
    case False
    with Cons.prems g1 have "for_each_present_entry get body is e1 s1 = Some (r, s')"
      by auto
    from Cons.IH[OF this] l1 show ?thesis by simp
  next
    case True
    with Cons.prems g1 obtain ret s2 where b1: "body e1 i s1 = Some (ret, s2)"
      and rest: "if ret \<noteq> 0 then (r, s') = (ret, s2)
                 else for_each_present_entry get body is e1 s2 = Some (r, s')"
      by (auto split: option.splits if_splits)
    note l2 = b[OF b1]
    show ?thesis
    proof (cases "ret = 0")
      case True
      with rest have "for_each_present_entry get body is e1 s2 = Some (r, s')" by simp
      from Cons.IH[OF this] l1 l2 show ?thesis by simp
    next
      case False
      with rest l1 l2 show ?thesis by simp
    qed
  qed
qed

lemma lru_by_shadow_entry:
  assumes "\<And>p s r s'. invalidate p s = Some (r, s') \<Longrightarrow> mm_lru_list_head s' = mm_lru_list_head s"
  shows "invalidate_by_shadow_entry invalidate e s = Some (r, s') \<Longrightarrow>
     mm_lru_list_head s' = mm_lru_list_head s"
  using assms
  by (auto simp: invalidate_by_shadow_entry_def Let_def split: if_splits option.splits)

lemma lru_invalidate:
  "ppgtt_invalidate_shadow_page fuel spt s = Some (r, s') \<Longrightarrow>
     mm_lru_list_head s' = mm_lru_list_head s"
proof (induction fuel arbitrary: spt s r s')
  case 0
  then show ?case by simp
next
  case (Suc fuel)
  let ?s1 = "upd_spt spt (\<lambda>x. x\<lparr>refcount := refcount x - 1\<rparr>) s"
  let ?body = "(\<lambda>e index s'.
                     if \<not> gtt_type_is_pt (get_next_pt_type (type e)) then Some (- EINVAL, s')
                     else invalidate_by_shadow_entry (ppgtt_invalidate_shadow_page fuel) e s')"
  have body: "\<And>e i s r s'. ?body e i s = Some (r, s') \<Longrightarrow> mm_lru_list_head s' = mm_lru_list_head s"
    using lru_by_shadow_entry[of "ppgtt_invalidate_shadow_page fuel", OF Suc.IH]
    by (auto split: if_splits)
  have loop: "\<And>is e s r s'. for_each_present_entry (ppgtt_get_shadow_entry spt) ?body is e s = Some (r, s')
     \<Longrightarrow> mm_lru_list_head s' = mm_lru_list_head s"
    by (rule lru_for_each[where get = "ppgtt_get_shadow_entry spt" and body = ?body])
       (auto dest: lru_ppgtt_get_shadow_entry body)
  from Suc.prems show ?case
    by (auto simp: Let_def split: if_splits option.splits dest!: loop lru_free_shadow_page)
qed


lemma lru_by_shadow_entry_fuel:
  "ppgtt_invalidate_shadow_page_by_shadow_entry fuel e s = Some (r, s') \<Longrightarrow>
     mm_lru_list_head s' = mm_lru_list_head s"
  unfolding ppgtt_invalidate_shadow_page_by_shadow_entry_def
  by (rule lru_by_shadow_entry[of "ppgtt_invalidate_shadow_page fuel"]) (auto dest: lru_invalidate)

lemma lru_invalidate_mm_loop:
  "invalidate_mm_loop fuel mm is se s = Some s' \<Longrightarrow> mm_lru_list_head s' = mm_lru_list_head s"
proof (induction "is" arbitrary: se s)
  case Nil
  then show ?case by simp
next
  case (Cons i "is")
  obtain r se1 s1 where g: "ppgtt_get_shadow_root_entry mm se i s = (r, se1, s1)"
    by (cases "ppgtt_get_shadow_root_entry mm se i s") auto
  then have l1: "mm_lru_list_head s1 = mm_lru_list_head s"
    by (auto simp: ppgtt_get_shadow_root_entry_def dest: lru_mm_get_entry)
  show ?case
  proof (cases "gen8_gtt_test_present se1")
    case False
    with Cons.prems g have "invalidate_mm_loop fuel mm is se1 s1 = Some s'" by simp
    from Cons.IH[OF this] l1 show ?thesis by simp
  next
    case True
    with Cons.prems g obtain ret s2 where
      b: "ppgtt_invalidate_shadow_page_by_shadow_entry fuel se1 s1 = Some (ret, s2)"
      and rest: "invalidate_mm_loop fuel mm is (se1\<lparr>val64 := 0\<rparr>)
                  (snd (ppgtt_set_shadow_root_entry mm (se1\<lparr>val64 := 0\<rparr>) i s2)) = Some s'"
      by (auto simp: Let_def split: option.splits)
    have l3: "mm_lru_list_head (snd (ppgtt_set_shadow_root_entry mm (se1\<lparr>val64 := 0\<rparr>) i s2))
              = mm_lru_list_head s2"
      unfolding ppgtt_set_shadow_root_entry_def
      by (rule lru_mm_set_entry[OF surjective_pairing])
    from Cons.IH[OF rest] l3 lru_by_shadow_entry_fuel[OF b] l1 show ?thesis by simp
  qed
qed

lemma lru_invalidate_mm_pv: "mm_lru_list_head (invalidate_mm_pv mm s) = mm_lru_list_head s"
  by (auto simp: invalidate_mm_pv_def ppgtt_get_shadow_root_entry_def
        ppgtt_set_shadow_root_entry_def Let_def lru_mm_set_entry[OF surjective_pairing]
      split: prod.splits dest: lru_mm_get_entry)

lemma lru_invalidate_mm:
  "invalidate_mm fuel mm s = Some s' \<Longrightarrow> mm_lru_list_head s' = mm_lru_list_head s"
  by (auto simp: invalidate_mm_def lru_invalidate_mm_pv split: if_splits option.splits
      dest: lru_invalidate_mm_loop)

lemma find_Some_mem: "find P xs = Some x \<Longrightarrow> x \<in> set xs"
  by (auto simp: find_Some_iff)

lemma length_removeAll_less: "x \<in> set xs \<Longrightarrow> length (removeAll x xs) < length xs"
  by (induction xs) (auto simp: less_Suc_eq_le length_removeAll_less_eq)

lemma lru_reclaim_one_mm:
  "reclaim_one_mm fuel s = Some (r, s') \<Longrightarrow> r \<noteq> 0 \<Longrightarrow>
     length (mm_lru_list_head s') < length (mm_lru_list_head s)"
  by (auto simp: reclaim_one_mm_def split: option.splits
      dest!: lru_invalidate_mm find_Some_mem intro: length_removeAll_less)

lemma lru_alloc_spt: "alloc_spt s = (r, s') \<Longrightarrow> mm_lru_list_head s' = mm_lru_list_head s"
  by (auto simp: alloc_spt_def split: list.splits page_alloc.splits)

subsection \<open>Allocating a shadow page\<close>

text \<open>
  \<^verbatim>\<open>ppgtt_alloc_shadow_page\<close> returns a pointer or \<^verbatim>\<open>ERR_PTR\<close> of a status: \<open>Inr\<close> of the
  address or \<open>Inl\<close> of the status.  The \<^verbatim>\<open>goto retry\<close> is the recursive call.
\<close>

function ppgtt_alloc_shadow_page ::
  "nat \<Rightarrow> int \<Rightarrow> u64 \<Rightarrow> gvt_state \<Rightarrow> ((int + nat) \<times> gvt_state) option" where
  "ppgtt_alloc_shadow_page fuel t gfn s =
     (case alloc_spt s of
        (None, s1) \<Rightarrow>
          (case reclaim_one_mm fuel s1 of
             None \<Rightarrow> None
           | Some (r, s2) \<Rightarrow>
               if r \<noteq> 0 then ppgtt_alloc_shadow_page fuel t gfn s2
               else Some (Inl (- ENOMEM), s2))
      | (Some spt, s1) \<Rightarrow>
          let s2 = upd_spt spt (\<lambda>x. x\<lparr>guest_page_type := t, refcount := 1\<rparr>) s1 in
          case init_shadow_page spt t s2 of
            (ret, s3) \<Rightarrow>
              if ret \<noteq> 0 then
                (case ppgtt_free_shadow_page spt s3 of
                   None \<Rightarrow> None
                 | Some s4 \<Rightarrow> Some (Inl ret, s4))
              else
                (case intel_vgpu_init_guest_page spt gfn s3 of
                   (ret', s4) \<Rightarrow>
                     if ret' \<noteq> 0 then
                       (case ppgtt_free_shadow_page spt s4 of
                          None \<Rightarrow> None
                        | Some s5 \<Rightarrow> Some (Inl ret', s5))
                     else Some (Inr spt, s4)))"
  by pat_completeness auto
termination
proof (relation "measure (\<lambda>(fuel, t, gfn, s). length (mm_lru_list_head s))")
  show "wf (measure (\<lambda>(fuel, t, gfn, s). length (mm_lru_list_head s)))" by simp
next
  fix fuel :: nat and t :: int and gfn :: u64 and s x y x2 xa ya
  assume a: "(x, y) = alloc_spt s" "x = None" "reclaim_one_mm fuel y = Some x2"
    "(xa, ya) = x2" "xa \<noteq> 0"
  from a have "length (mm_lru_list_head ya) < length (mm_lru_list_head y)"
    by (auto dest: lru_reclaim_one_mm)
  moreover from a have "mm_lru_list_head y = mm_lru_list_head s"
    by (auto dest: lru_alloc_spt[OF sym])
  ultimately show "((fuel, t, gfn, ya), fuel, t, gfn, s)
       \<in> measure (\<lambda>(fuel, t, gfn, s). length (mm_lru_list_head s))"
    by simp
qed

declare ppgtt_alloc_shadow_page.simps [simp del]


subsection \<open>Populating shadow pages\<close>

text \<open>
  \<^verbatim>\<open>IS_ERR\<close> holds of the pointers that \<^verbatim>\<open>ERR_PTR\<close> makes from the statuses
  \<open>-4095 .. -1\<close>.  A status outside this range, made a pointer by \<^verbatim>\<open>ERR_PTR\<close>, is taken
  for an address by the caller: no defined result.
\<close>

definition IS_ERR_VALUE :: "int \<Rightarrow> bool" where
  "IS_ERR_VALUE x \<longleftrightarrow> - 4095 \<le> x \<and> x < 0"

definition ERR_PTR :: "int \<Rightarrow> gvt_state \<Rightarrow> ((int + nat) \<times> gvt_state) option" where
  "ERR_PTR ret s = (if IS_ERR_VALUE ret then Some (Inl ret, s) else None)"

definition ppgtt_generate_shadow_entry ::
  "intel_gvt_gtt_entry \<Rightarrow> nat \<Rightarrow> intel_gvt_gtt_entry \<Rightarrow> gvt_state \<Rightarrow> intel_gvt_gtt_entry" where
  "ppgtt_generate_shadow_entry se sp ge s =
     gen8_gtt_set_pfn (se\<lparr>type := type ge, val64 := val64 ge\<rparr>) (shadow_page_mfn (spts s sp))"

text \<open>
  \<^verbatim>\<open>ppgtt_populate_shadow_page_by_guest_entry\<close> and \<^verbatim>\<open>ppgtt_populate_shadow_page\<close> call
  each other; the first is written over the second, \<open>populate\<close>, and \<open>fuel\<close> bounds the
  nesting as it does for the invalidation.
\<close>

definition populate_by_guest_entry ::
  "(nat \<Rightarrow> gvt_state \<Rightarrow> (int \<times> gvt_state) option) \<Rightarrow> nat \<Rightarrow> intel_gvt_gtt_entry \<Rightarrow> gvt_state
     \<Rightarrow> ((int + nat) \<times> gvt_state) option" where
  "populate_by_guest_entry populate fuel we s =
     (if \<not> gtt_type_is_pt (get_next_pt_type (type we)) then ERR_PTR (- EINVAL) s
      else
        case intel_vgpu_find_guest_page s (gen8_gtt_get_pfn we) of
          Some g \<Rightarrow> Some (Inr g, ppgtt_get_shadow_page g s)
        | None \<Rightarrow>
            let t = get_next_pt_type (type we) in
            (case ppgtt_alloc_shadow_page fuel t (gen8_gtt_get_pfn we) s of
               None \<Rightarrow> None
             | Some (Inl err, s1) \<Rightarrow> ERR_PTR err s1
             | Some (Inr sp, s1) \<Rightarrow>
                 (case intel_gvt_hypervisor_set_wp_page sp s1 of
                    (ret, s2) \<Rightarrow>
                      if ret \<noteq> 0 then ERR_PTR ret s2
                      else
                        (case populate sp s2 of
                           None \<Rightarrow> None
                         | Some (ret', s3) \<Rightarrow>
                             if ret' \<noteq> 0 then ERR_PTR ret' s3 else Some (Inr sp, s3)))))"

primrec ppgtt_populate_shadow_page ::
  "nat \<Rightarrow> nat \<Rightarrow> gvt_state \<Rightarrow> (int \<times> gvt_state) option" where
  "ppgtt_populate_shadow_page 0 spt s = None"
| "ppgtt_populate_shadow_page (Suc fuel) spt s =
     (if gtt_type_is_pte_pt (shadow_page_type (spts s spt)) then
        let s1 = s\<lparr>ge_cache_enable := True\<rparr> in
        case for_each_present_entry (ppgtt_get_guest_entry spt)
               (\<lambda>ge i s'.
                  case gtt_entry_p2m ge s' of
                    (ret, se, s'') \<Rightarrow>
                      if ret \<noteq> 0 then Some (ret, s'')
                      else Some (0, snd (ppgtt_set_shadow_entry spt se i s'')))
               [0..<pt_entries s1] (uninit_entry s1) s1 of
          None \<Rightarrow> None
        | Some (ret, s2) \<Rightarrow>
            if ret \<noteq> 0 then Some (ret, s2) else Some (0, s2\<lparr>ge_cache_enable := False\<rparr>)
      else
        for_each_present_entry (ppgtt_get_guest_entry spt)
          (\<lambda>ge i s'.
             if \<not> gtt_type_is_pt (get_next_pt_type (type ge)) then Some (- EINVAL, s')
             else
               case populate_by_guest_entry (ppgtt_populate_shadow_page fuel) fuel ge s' of
                 None \<Rightarrow> None
               | Some (Inl err, s1) \<Rightarrow> Some (err, s1)
               | Some (Inr sp, s1) \<Rightarrow>
                   (case ppgtt_get_shadow_entry spt (uninit_entry s1) i s1 of
                      (r, se, s2) \<Rightarrow>
                        Some (0, snd (ppgtt_set_shadow_entry spt
                                        (ppgtt_generate_shadow_entry se sp ge s2) i s2))))
          [0..<pt_entries s] (uninit_entry s) s)"

definition ppgtt_populate_shadow_page_by_guest_entry ::
  "nat \<Rightarrow> intel_gvt_gtt_entry \<Rightarrow> gvt_state \<Rightarrow> ((int + nat) \<times> gvt_state) option" where
  "ppgtt_populate_shadow_page_by_guest_entry fuel we s =
     populate_by_guest_entry (ppgtt_populate_shadow_page fuel) fuel we s"

subsection \<open>Removing and adding one guest entry\<close>

definition ppgtt_handle_guest_entry_removal ::
  "nat \<Rightarrow> nat \<Rightarrow> intel_gvt_gtt_entry \<Rightarrow> nat \<Rightarrow> gvt_state \<Rightarrow> (int \<times> gvt_state) option" where
  "ppgtt_handle_guest_entry_removal fuel gpt se index s =
     (if \<not> gen8_gtt_test_present se then Some (0, s)
      else if gen8_gtt_get_pfn se = scratch_pt s (shadow_page_type (spts s gpt)) then Some (0, s)
      else if gtt_type_is_pt (get_next_pt_type (type se)) then
        (case ppgtt_find_shadow_page s (gen8_gtt_get_pfn se) of
           None \<Rightarrow> Some (- ENXIO, s)
         | Some sp \<Rightarrow> ppgtt_invalidate_shadow_page fuel sp s)
      else Some (0, s))"

definition ppgtt_handle_guest_entry_add ::
  "nat \<Rightarrow> nat \<Rightarrow> intel_gvt_gtt_entry \<Rightarrow> nat \<Rightarrow> gvt_state \<Rightarrow> (int \<times> gvt_state) option" where
  "ppgtt_handle_guest_entry_add fuel gpt we index s =
     (if gtt_type_is_pt (get_next_pt_type (type we)) then
        (case ppgtt_populate_shadow_page_by_guest_entry fuel we s of
           None \<Rightarrow> None
         | Some (Inl err, s1) \<Rightarrow> Some (err, s1)
         | Some (Inr sp, s1) \<Rightarrow>
             (case ppgtt_get_shadow_entry gpt (uninit_entry s1) index s1 of
                (r, m, s2) \<Rightarrow>
                  Some (0, snd (ppgtt_set_shadow_entry gpt
                                  (ppgtt_generate_shadow_entry m sp we s2) index s2))))
      else
        (case gtt_entry_p2m we s of
           (ret, m, s1) \<Rightarrow>
             if ret \<noteq> 0 then Some (ret, s1)
             else Some (0, snd (ppgtt_set_shadow_entry gpt m index s1))))"

subsection \<open>Out-of-sync pages\<close>

definition PAGE_SHIFT :: nat where "PAGE_SHIFT = 12"
definition PAGE_SIZE :: u64 where "PAGE_SIZE = 4096"

text \<open>
  The loop of \<^verbatim>\<open>sync_oos_page\<close> over the indices \<open>is\<close>, for the out-of-sync page
  \<open>oos_page\<close> of the guest page \<open>gp\<close>.  \<^verbatim>\<open>test_and_clear_bit\<close> stands behind \<^verbatim>\<open>&&\<close>: it
  runs, and clears the bit, only where the two values are equal.
\<close>

fun sync_oos_page_loop ::
  "nat \<Rightarrow> nat \<Rightarrow> nat list \<Rightarrow> intel_gvt_gtt_entry \<Rightarrow> intel_gvt_gtt_entry \<Rightarrow> gvt_state
     \<Rightarrow> int \<times> gvt_state" where
  "sync_oos_page_loop oos_page gp [] old new s = (0, s)"
| "sync_oos_page_loop oos_page gp (index # is) old new s =
     (case gtt_get_entry64__BKL (PT_oos_mem oos_page) old index False 0 s of
        (r1, old1, s1) \<Rightarrow>
          (case gtt_get_entry64__BKL PT_NULL new index True
                  (push_bit PAGE_SHIFT (guest_page_gfn (spts s1 gp))) s1 of
             (r2, new1, s2) \<Rightarrow>
               if val64 old1 = val64 new1 \<and> index \<notin> post_shadow_bitmap (spts s2 gp)
               then sync_oos_page_loop oos_page gp is old1 new1 s2
               else
                 let s3 = (if val64 old1 = val64 new1
                           then upd_spt gp (\<lambda>x. x\<lparr>post_shadow_bitmap :=
                                                      post_shadow_bitmap x - {index}\<rparr>) s2
                           else s2)
                 in
                 (case gtt_entry_p2m new1 s3 of
                    (ret, m, s4) \<Rightarrow>
                      if ret \<noteq> 0 then (ret, s4)
                      else
                        let s5 = snd (gtt_set_entry64__BKL (PT_oos_mem oos_page) new1 index
                                        False 0 s4);
                            s6 = snd (ppgtt_set_shadow_entry gp m index s5)
                        in sync_oos_page_loop oos_page gp is old1 new1 s6)))"

definition sync_oos_page :: "nat \<Rightarrow> gvt_state \<Rightarrow> (int \<times> gvt_state) option" where
  "sync_oos_page oos_page s =
     (case oos_guest_page (oos_pages s oos_page) of
        None \<Rightarrow> None
      | Some gp \<Rightarrow>
          let e0 = \<lparr>val64 = 0, type = get_entry_type (guest_page_type (spts s gp))\<rparr> in
          (case sync_oos_page_loop oos_page gp [0..<pt_entries s] e0 e0 s of
             (ret, s1) \<Rightarrow>
               if ret \<noteq> 0 then Some (ret, s1)
               else
                 let s2 = upd_spt gp (\<lambda>x. x\<lparr>guest_page_write_cnt := 0\<rparr>) s1
                 in Some (0, s2\<lparr>post_shadow_list_head :=
                                  removeAll gp (post_shadow_list_head s2)\<rparr>)))"

definition attach_oos_page :: "nat \<Rightarrow> nat \<Rightarrow> gvt_state \<Rightarrow> int \<times> gvt_state" where
  "attach_oos_page oos_page gpt s =
     (let gpa = push_bit GTT_PAGE_SHIFT (guest_page_gfn (spts s gpt)) in
      if hv_read_gpa_ret s gpa \<noteq> 0 then (hv_read_gpa_ret s gpa, s)
      else
        let s1 = upd_oos oos_page
                   (\<lambda>x. x\<lparr>oos_mem := read_guest_page s gpa (oos_mem x),
                          oos_guest_page := Some gpt\<rparr>) s;
            s2 = upd_spt gpt (\<lambda>x. x\<lparr>guest_page_oos_page := Some oos_page\<rparr>) s1
        in (0, s2\<lparr>oos_page_free_list_head := removeAll oos_page (oos_page_free_list_head s2),
                  oos_page_use_list_head :=
                    removeAll oos_page (oos_page_use_list_head s2) @ [oos_page]\<rparr>))"

definition ppgtt_set_guest_page_sync :: "nat \<Rightarrow> gvt_state \<Rightarrow> (int \<times> gvt_state) option" where
  "ppgtt_set_guest_page_sync gpt s =
     (case intel_gvt_hypervisor_set_wp_page gpt s of
        (ret, s1) \<Rightarrow>
          if ret \<noteq> 0 then Some (ret, s1)
          else
            (case guest_page_oos_page (spts s1 gpt) of
               None \<Rightarrow> None
             | Some oos_page \<Rightarrow>
                 sync_oos_page oos_page
                   (s1\<lparr>oos_page_list_head := removeAll oos_page (oos_page_list_head s1)\<rparr>)))"

definition ppgtt_allocate_oos_page :: "nat \<Rightarrow> gvt_state \<Rightarrow> (int \<times> gvt_state) option" where
  "ppgtt_allocate_oos_page gpt s =
     (case oos_page_free_list_head s of
        [] \<Rightarrow>
          (case oos_page_use_list_head s of
             [] \<Rightarrow> None
           | oos_page # rest \<Rightarrow>
               (case oos_guest_page (oos_pages s oos_page) of
                  None \<Rightarrow> None
                | Some gp \<Rightarrow>
                    (case ppgtt_set_guest_page_sync gp s of
                       None \<Rightarrow> None
                     | Some (ret, s1) \<Rightarrow>
                         if ret \<noteq> 0 then Some (ret, s1)
                         else
                           (case detach_oos_page oos_page s1 of
                              None \<Rightarrow> None
                            | Some (ret', s2) \<Rightarrow>
                                if ret' \<noteq> 0 then Some (ret', s2)
                                else Some (attach_oos_page oos_page gpt s2)))))
      | oos_page # rest \<Rightarrow> Some (attach_oos_page oos_page gpt s))"

definition ppgtt_set_guest_page_oos :: "nat \<Rightarrow> gvt_state \<Rightarrow> int \<times> gvt_state" where
  "ppgtt_set_guest_page_oos gpt s =
     (case guest_page_oos_page (spts s gpt) of
        None \<Rightarrow> (- EINVAL, s)
      | Some oos_page \<Rightarrow>
          intel_gvt_hypervisor_unset_wp_page gpt
            (s\<lparr>oos_page_list_head := oos_page_list_head s @ [oos_page]\<rparr>))"

text \<open>
  The \<^verbatim>\<open>list_for_each_safe\<close> of \<^verbatim>\<open>intel_vgpu_sync_oos_pages\<close> over the pages \<open>ps\<close> that
  are on the vGPU's list.  The body unlinks the page that the guest page points back to;
  the walk of the kernel list is the walk of \<open>ps\<close> as long as that is the page being
  visited, and has no result in the model otherwise.
\<close>

fun sync_oos_pages_loop :: "nat list \<Rightarrow> gvt_state \<Rightarrow> (int \<times> gvt_state) option" where
  "sync_oos_pages_loop [] s = Some (0, s)"
| "sync_oos_pages_loop (oos_page # ps) s =
     (case oos_guest_page (oos_pages s oos_page) of
        None \<Rightarrow> None
      | Some gp \<Rightarrow>
          (case ppgtt_set_guest_page_sync gp s of
             None \<Rightarrow> None
           | Some (ret, s1) \<Rightarrow>
               if ret \<noteq> 0 then Some (ret, s1)
               else if guest_page_oos_page (spts s gp) \<noteq> Some oos_page then None
               else sync_oos_pages_loop ps s1))"

definition intel_vgpu_sync_oos_pages :: "gvt_state \<Rightarrow> (int \<times> gvt_state) option" where
  "intel_vgpu_sync_oos_pages s =
     (if \<not> enable_gvt_oos s then Some (0, s)
      else sync_oos_pages_loop (oos_page_list_head s) s)"

subsection \<open>The heart of PPGTT shadow page table\<close>

definition ppgtt_handle_guest_write_page_table ::
  "nat \<Rightarrow> nat \<Rightarrow> intel_gvt_gtt_entry \<Rightarrow> nat \<Rightarrow> gvt_state \<Rightarrow> (int \<times> gvt_state) option" where
  "ppgtt_handle_guest_write_page_table fuel gpt we index s =
     (let t = shadow_page_type (spts s gpt);
          new_present = gen8_gtt_test_present we
      in
      case ppgtt_get_shadow_entry gpt (uninit_entry s) index s of
        (r, se, s1) \<Rightarrow>
          (case (if new_present then ppgtt_handle_guest_entry_add fuel gpt we index s1
                 else Some (0, s1)) of
             None \<Rightarrow> None
           | Some (ret, s2) \<Rightarrow>
               if ret \<noteq> 0 then Some (ret, s2)
               else
                 (case ppgtt_handle_guest_entry_removal fuel gpt se index s2 of
                    None \<Rightarrow> None
                  | Some (ret', s3) \<Rightarrow>
                      if ret' \<noteq> 0 then Some (ret', s3)
                      else if \<not> new_present then
                        Some (0, snd (ppgtt_set_shadow_entry gpt
                                        (gen8_gtt_set_pfn se (scratch_pt s3 t)) index s3))
                      else Some (0, s3))))"

definition can_do_out_of_sync :: "gvt_state \<Rightarrow> nat \<Rightarrow> bool" where
  "can_do_out_of_sync s gpt \<longleftrightarrow>
     enable_gvt_oos s
     \<and> gtt_type_is_pte_pt (guest_page_type (spts s gpt))
     \<and> guest_page_write_cnt (spts s gpt) \<ge> 2"

definition ppgtt_set_post_shadow :: "nat \<Rightarrow> nat \<Rightarrow> gvt_state \<Rightarrow> gvt_state" where
  "ppgtt_set_post_shadow spt index s =
     (let s1 = upd_spt spt (\<lambda>x. x\<lparr>post_shadow_bitmap := insert index (post_shadow_bitmap x)\<rparr>) s
      in if spt \<in> set (post_shadow_list_head s1) then s1
         else s1\<lparr>post_shadow_list_head := post_shadow_list_head s1 @ [spt]\<rparr>)"

text \<open>
  The second half of \<^verbatim>\<open>ppgtt_handle_guest_write_page_table_bytes\<close>, from the test of
  \<^verbatim>\<open>enable_gvt_oos\<close> on; \<open>we\<close> is the guest entry that the first half has read.
\<close>

definition handle_guest_write_oos ::
  "nat \<Rightarrow> intel_gvt_gtt_entry \<Rightarrow> nat \<Rightarrow> gvt_state \<Rightarrow> (int \<times> gvt_state) option" where
  "handle_guest_write_oos gpt we index s =
     (if \<not> enable_gvt_oos s then Some (0, s)
      else
        let s1 = upd_spt gpt (\<lambda>x. x\<lparr>guest_page_write_cnt := guest_page_write_cnt x + 1\<rparr>) s;
            s2 = (case guest_page_oos_page (spts s1 gpt) of
                    None \<Rightarrow> s1
                  | Some oos_page \<Rightarrow>
                      snd (gtt_set_entry64__BKL (PT_oos_mem oos_page) we index False 0 s1))
        in
        if can_do_out_of_sync s2 gpt then
          (case (if guest_page_oos_page (spts s2 gpt) = None
                 then ppgtt_allocate_oos_page gpt s2 else Some (0, s2)) of
             None \<Rightarrow> None
           | Some (r, s3) \<Rightarrow>
               (case ppgtt_set_guest_page_oos gpt s3 of
                  (ret, s4) \<Rightarrow> if ret < 0 then Some (ret, s4) else Some (0, s4)))
        else Some (0, s2))"

text \<open>
  The first half of \<^verbatim>\<open>ppgtt_handle_guest_write_page_table_bytes\<close>, down to the test of
  \<^verbatim>\<open>enable_gvt_oos\<close>: the status, the guest entry \<^verbatim>\<open>we\<close>, the index and the state.
\<close>

definition handle_guest_write_entry ::
  "nat \<Rightarrow> nat \<Rightarrow> u64 \<Rightarrow> u8 list \<Rightarrow> int \<Rightarrow> gvt_state
     \<Rightarrow> (int \<times> intel_gvt_gtt_entry \<times> nat \<times> gvt_state) option" where
  "handle_guest_write_entry fuel gpt pa p_data bytes s =
     (let index = unat (drop_bit (gtt_entry_size_shift s) (pa AND (PAGE_SIZE - 1)));
          s1 = snd (intel_gvt_hypervisor_write_gpa pa (take (nat bytes) p_data) s)
      in
      case ppgtt_get_guest_entry gpt (uninit_entry s1) index s1 of
        (r, we0, s2) \<Rightarrow>
          let we = snd (gen8_gtt_test_pse we0) in
          if bytes = int (gtt_entry_size s2) then
            (case ppgtt_handle_guest_write_page_table fuel gpt we index s2 of
               None \<Rightarrow> None
             | Some (ret, s3) \<Rightarrow> Some (ret, we, index, s3))
          else
            (case (if index \<notin> post_shadow_bitmap (spts s2 gpt) then
                     (let t = shadow_page_type (spts s2 gpt) in
                      case ppgtt_get_shadow_entry gpt (uninit_entry s2) index s2 of
                        (r', se, s3) \<Rightarrow>
                          (case ppgtt_handle_guest_entry_removal fuel gpt se index s3 of
                             None \<Rightarrow> None
                           | Some (ret, s4) \<Rightarrow>
                               if ret \<noteq> 0 then Some (ret, s4)
                               else Some (0, snd (ppgtt_set_shadow_entry gpt
                                      (gen8_gtt_set_pfn se (scratch_pt s4 t)) index s4))))
                   else Some (0, s2)) of
               None \<Rightarrow> None
             | Some (ret, s5) \<Rightarrow>
                 if ret \<noteq> 0 then Some (ret, we, index, s5)
                 else Some (0, we, index, ppgtt_set_post_shadow gpt index s5)))"

definition ppgtt_handle_guest_write_page_table_bytes ::
  "nat \<Rightarrow> nat \<Rightarrow> u64 \<Rightarrow> u8 list \<Rightarrow> int \<Rightarrow> gvt_state \<Rightarrow> (int \<times> gvt_state) option" where
  "ppgtt_handle_guest_write_page_table_bytes fuel gpt pa p_data bytes s =
     (case handle_guest_write_entry fuel gpt pa p_data bytes s of
        None \<Rightarrow> None
      | Some (ret, we, index, s1) \<Rightarrow>
          if ret \<noteq> 0 then Some (ret, s1)
          else handle_guest_write_oos gpt we index s1)"

definition ppgtt_write_protection_handler ::
  "nat \<Rightarrow> nat \<Rightarrow> u64 \<Rightarrow> u8 list \<Rightarrow> int \<Rightarrow> gvt_state \<Rightarrow> (int \<times> gvt_state) option" where
  "ppgtt_write_protection_handler fuel gp pa p_data bytes s =
     (if bytes \<noteq> 4 \<and> bytes \<noteq> 8 then Some (- EINVAL, s)
      else if \<not> guest_page_writeprotection (spts s gp) then Some (- EINVAL, s)
      else ppgtt_handle_guest_write_page_table_bytes fuel gp pa p_data bytes s)"

subsection \<open>GMA translation APIs\<close>

definition ppgtt_get_next_level_entry ::
  "nat \<Rightarrow> intel_gvt_gtt_entry \<Rightarrow> nat \<Rightarrow> bool \<Rightarrow> gvt_state
     \<Rightarrow> int \<times> intel_gvt_gtt_entry \<times> gvt_state" where
  "ppgtt_get_next_level_entry mm e index guest s =
     (if \<not> has_shadow_page_table (mms s mm) then (- EINVAL, e, s)
      else
        case ppgtt_find_shadow_page s (gen8_gtt_get_pfn e) of
          None \<Rightarrow> (- ENXIO, e, s)
        | Some sp \<Rightarrow>
            (case (if \<not> guest then ppgtt_get_shadow_entry sp e index s
                   else ppgtt_get_guest_entry sp e index s) of
               (r, e', s') \<Rightarrow> (0, e', s')))"

text \<open>
  The loop of \<^verbatim>\<open>intel_vgpu_gma_to_gpa\<close> over the indices \<open>gma_index[i]\<close> that are left;
  \<^verbatim>\<open>i == index - 1\<close> holds at the last of them.  \<open>None\<close> is the \<^verbatim>\<open>goto err\<close>.
\<close>

fun gma_walk ::
  "nat \<Rightarrow> intel_gvt_gtt_entry \<Rightarrow> u64 list \<Rightarrow> gvt_state \<Rightarrow> intel_gvt_gtt_entry option \<times> gvt_state"
  where
  "gma_walk mm e [] s = (Some e, s)"
| "gma_walk mm e (i # is) s =
     (case ppgtt_get_next_level_entry mm e (unat i) (is = []) s of
        (ret, e', s') \<Rightarrow>
          if ret \<noteq> 0 then (None, s')
          else if \<not> gen8_gtt_test_present e' then (None, s')
          else gma_walk mm e' is s')"

text \<open>Modelled from the spec: \<^verbatim>\<open>~GTT_PAGE_MASK\<close> of \<^verbatim>\<open>gtt.h\<close>, the offset in a page.\<close>

definition NOT_GTT_PAGE_MASK :: u64 where "NOT_GTT_PAGE_MASK = 0xfff"

definition intel_vgpu_gma_to_gpa :: "nat \<Rightarrow> u64 \<Rightarrow> gvt_state \<Rightarrow> u64 \<times> gvt_state" where
  "intel_vgpu_gma_to_gpa mm gma s =
     (if mm_type (mms s mm) \<noteq> INTEL_GVT_MM_GGTT \<and> mm_type (mms s mm) \<noteq> INTEL_GVT_MM_PPGTT
      then (INTEL_GVT_INVALID_ADDR, s)
      else if mm_type (mms s mm) = INTEL_GVT_MM_GGTT then
        (if \<not> vgpu_gmadr_is_valid s gma then (INTEL_GVT_INVALID_ADDR, s)
         else
           case ggtt_get_guest_entry mm (uninit_entry s) (unat (gma_to_ggtt_pte_index gma)) s of
             (ret, e, s1) \<Rightarrow>
               if ret \<noteq> 0 then (INTEL_GVT_INVALID_ADDR, s1)
               else (push_bit GTT_PAGE_SHIFT (gen8_gtt_get_pfn e) + (gma AND NOT_GTT_PAGE_MASK),
                     s1))
      else
        case (if page_table_level (mms s mm) = 4 then
                Some (0, [gen8_gma_to_pml4_index gma, gen8_gma_to_l4_pdp_index gma,
                          gen8_gma_to_pde_index gma, gen8_gma_to_pte_index gma])
              else if page_table_level (mms s mm) = 3 then
                Some (gen8_gma_to_l3_pdp_index gma,
                      [gen8_gma_to_pde_index gma, gen8_gma_to_pte_index gma])
              else if page_table_level (mms s mm) = 2 then
                Some (gen8_gma_to_pde_index gma, [gen8_gma_to_pte_index gma])
              else None) of
          None \<Rightarrow> (INTEL_GVT_INVALID_ADDR, s)
        | Some (root_index, gma_index) \<Rightarrow>
            (case ppgtt_get_shadow_root_entry mm (uninit_entry s) (unat root_index) s of
               (ret, e, s1) \<Rightarrow>
                 if ret \<noteq> 0 then (INTEL_GVT_INVALID_ADDR, s1)
                 else
                   (case gma_walk mm e gma_index s1 of
                      (None, s2) \<Rightarrow> (INTEL_GVT_INVALID_ADDR, s2)
                    | (Some e', s2) \<Rightarrow>
                        (push_bit GTT_PAGE_SHIFT (gen8_gtt_get_pfn e')
                           + (gma AND NOT_GTT_PAGE_MASK), s2))))"

subsection \<open>GTT MMIO emulation\<close>

text \<open>
  The data of an access is the list \<open>p_data\<close> of its bytes.  A read returns the status,
  the bytes copied to \<^verbatim>\<open>p_data\<close> and the state.
\<close>

definition emulate_gtt_mmio_read ::
  "u32 \<Rightarrow> u8 list \<Rightarrow> nat \<Rightarrow> gvt_state \<Rightarrow> int \<times> u8 list \<times> gvt_state" where
  "emulate_gtt_mmio_read off p_data bytes s =
     (let index = unat (drop_bit (gtt_entry_size_shift s) (ucast off :: u64)) in
      if bytes \<noteq> 4 \<and> bytes \<noteq> 8 then (- EINVAL, p_data, s)
      else
        case ggtt_get_guest_entry (ggtt_mm s) (uninit_entry s) index s of
          (r, e, s1) \<Rightarrow>
            (0,
             memcpy_from_entry e (uninit_padding s1)
               (unat (off AND (of_nat (gtt_entry_size s) - 1))) bytes,
             s1))"

definition intel_vgpu_emulate_gtt_mmio_read ::
  "u32 \<Rightarrow> u8 list \<Rightarrow> nat \<Rightarrow> gvt_state \<Rightarrow> int \<times> u8 list \<times> gvt_state" where
  "intel_vgpu_emulate_gtt_mmio_read off p_data bytes s =
     (if bytes \<noteq> 4 \<and> bytes \<noteq> 8 then (- EINVAL, p_data, s)
      else emulate_gtt_mmio_read (off - gtt_start_offset s) p_data bytes s)"

definition emulate_gtt_mmio_write ::
  "u32 \<Rightarrow> u8 list \<Rightarrow> nat \<Rightarrow> gvt_state \<Rightarrow> int \<times> gvt_state" where
  "emulate_gtt_mmio_write off p_data bytes s =
     (let g_gtt_index = drop_bit (gtt_entry_size_shift s) (ucast off :: u64) in
      if bytes \<noteq> 4 \<and> bytes \<noteq> 8 then (- EINVAL, s)
      else
        let gma = push_bit GTT_PAGE_SHIFT g_gtt_index in
        if \<not> vgpu_gmadr_is_valid s gma then (0, s)
        else
          case ggtt_get_guest_entry (ggtt_mm s) (uninit_entry s) (unat g_gtt_index) s of
            (r, e0, s1) \<Rightarrow>
              let e = memcpy_to_entry e0 (unat (off AND (of_nat (gtt_entry_size s) - 1)))
                        (take bytes p_data)
              in
              (case (if gen8_gtt_test_present e then
                       (case gtt_entry_p2m e s1 of
                          (ret, m, s2) \<Rightarrow>
                            if ret \<noteq> 0 then (gen8_gtt_set_pfn m (scratch_ggtt_mfn s2), s2)
                            else (m, s2))
                     else (gen8_gtt_set_pfn e (scratch_ggtt_mfn s1), s1)) of
                 (m, s2) \<Rightarrow>
                   let s3 = snd (ggtt_set_shadow_entry (ggtt_mm s) m (unat g_gtt_index) s2);
                       s4 = gtt_invalidate s3;
                       s5 = snd (ggtt_set_guest_entry (ggtt_mm s) e (unat g_gtt_index) s4)
                   in (0, s5)))"

definition intel_vgpu_emulate_gtt_mmio_write ::
  "u32 \<Rightarrow> u8 list \<Rightarrow> nat \<Rightarrow> gvt_state \<Rightarrow> int \<times> gvt_state" where
  "intel_vgpu_emulate_gtt_mmio_write off p_data bytes s =
     (if bytes \<noteq> 4 \<and> bytes \<noteq> 8 then (- EINVAL, s)
      else emulate_gtt_mmio_write (off - gtt_start_offset s) p_data bytes s)"

section \<open>Concrete states\<close>

text \<open>
  The state of a vGPU on a gen8 device after \<^verbatim>\<open>intel_vgpu_init_gtt\<close>: entries of eight
  bytes, the GGTT mm at address 0, no shadow page and two free out-of-sync pages.  The
  hypervisor translates the guest frames below \<open>0x100\<close>.
\<close>

definition ggtt_mm0 :: intel_vgpu_mm where
  "ggtt_mm0 =
     \<lparr>mm_type = INTEL_GVT_MM_GGTT, initialized = True, shadowed = False,
      has_shadow_page_table = False, page_table_entry_type = GTT_TYPE_GGTT_PTE,
      page_table_entry_cnt = 1048576, virtual_page_table = Some (\<lambda>k. 0),
      shadow_page_table = None, pincount = 0, page_table_level = 1\<rparr>"

definition vgpu0 :: gvt_state where
  "vgpu0 =
     \<lparr>gtt_entry_size = 8, gtt_entry_size_shift = 3, gtt_start_offset = 0x800000,
      enable_gvt_oos = True, stop_machine_path = False, pvmmio_ppgtt_update = False,
      hv_gfn_to_mfn = (\<lambda>gfn. if gfn < 0x100 then gfn + 0x1000 else INTEL_GVT_INVALID_ADDR),
      hv_read_gpa_ret = (\<lambda>a. 0), hv_write_gpa_ret = (\<lambda>a. 0),
      hv_set_wp_ret = (\<lambda>a. 0), hv_unset_wp_ret = (\<lambda>a. 0),
      guest_mem = (\<lambda>a. 0), page_allocator = [], next_spt = 0,
      uninit_entry = \<lparr>val64 = 0, type = 0\<rparr>, uninit_padding = (\<lambda>k. 0),
      saved_gfn = 0, saved_mfn = 0,
      ge_cache_enable = False, cached_guest_entry = Some (\<lambda>k. 0),
      vgpu_aperture_gmadr_base = 0x4000000, vgpu_aperture_gmadr_end = 0x7ffffff,
      vgpu_hidden_gmadr_base = 0x40000000, vgpu_hidden_gmadr_end = 0x7fffffff,
      gsm = (\<lambda>k. 0), gfx_flsh_cntl = 0,
      spts = (\<lambda>p. zeroed_spt), guest_page_hash_table = [], shadow_page_hash_table = [],
      scratch_pt = (\<lambda>t. 0x9000), oos_page_list_head = [], post_shadow_list_head = [],
      mms = (\<lambda>p. ggtt_mm0), ggtt_mm = 0,
      oos_pages = (\<lambda>p. \<lparr>oos_guest_page = None, oos_mem = (\<lambda>k. 0)\<rparr>),
      oos_page_free_list_head = [0, 1], oos_page_use_list_head = [],
      mm_lru_list_head = [], scratch_ggtt_mfn = 0x8000\<rparr>"

text \<open>
  The same vGPU with one shadow page table at address 1: a PTE-level table with all
  entries absent, whose guest page is the write-protected guest frame \<open>0x30\<close>.
\<close>

definition pte_spt0 :: intel_vgpu_ppgtt_spt where
  "pte_spt0 =
     \<lparr>shadow_page_page = Some 0x5000000, shadow_page_vaddr = (\<lambda>k. 0),
      shadow_page_type = GTT_TYPE_PPGTT_PTE_PT, shadow_page_mfn = 0x5000,
      guest_page_writeprotection = True, guest_page_gfn = 0x30,
      guest_page_write_cnt = 0, guest_page_oos_page = None,
      guest_page_type = GTT_TYPE_PPGTT_PTE_PT, refcount = 1, post_shadow_bitmap = {}\<rparr>"

definition vgpu1 :: gvt_state where
  "vgpu1 = vgpu0\<lparr>spts := (\<lambda>p. zeroed_spt)(1 := pte_spt0),
                  guest_page_hash_table := [1], shadow_page_hash_table := [1],
                  next_spt := 2\<rparr>"

text \<open>
  The vGPU with one page-directory table at address 1, write-protected, that the guest
  has written five times.
\<close>

definition pde_spt0 :: intel_vgpu_ppgtt_spt where
  "pde_spt0 =
     \<lparr>shadow_page_page = Some 0x5000000, shadow_page_vaddr = (\<lambda>k. 0),
      shadow_page_type = GTT_TYPE_PPGTT_PDE_PT, shadow_page_mfn = 0x5000,
      guest_page_writeprotection = True, guest_page_gfn = 0x30,
      guest_page_write_cnt = 5, guest_page_oos_page = None,
      guest_page_type = GTT_TYPE_PPGTT_PDE_PT, refcount = 1, post_shadow_bitmap = {}\<rparr>"

definition vgpu2 :: gvt_state where
  "vgpu2 = vgpu0\<lparr>spts := (\<lambda>p. zeroed_spt)(1 := pde_spt0),
                  guest_page_hash_table := [1], shadow_page_hash_table := [1],
                  next_spt := 2\<rparr>"

text \<open>The vGPU \<open>vgpu1\<close> after the guest has written its page table once.\<close>

definition vgpu3 :: gvt_state where
  "vgpu3 = upd_spt 1 (\<lambda>x. x\<lparr>guest_page_write_cnt := 1\<rparr>) vgpu1"

text \<open>
  A vGPU with two PPGTT mms, at the addresses 1 and 2, both shadowed with no root entry
  present, both unpinned and on the LRU list, at a time when the kernel fails two page
  allocations and then answers the third.
\<close>

definition ppgtt_mm0 :: intel_vgpu_mm where
  "ppgtt_mm0 =
     \<lparr>mm_type = INTEL_GVT_MM_PPGTT, initialized = True, shadowed = True,
      has_shadow_page_table = True, page_table_entry_type = GTT_TYPE_PPGTT_ROOT_L4_ENTRY,
      page_table_entry_cnt = 4, virtual_page_table = Some (\<lambda>k. 0),
      shadow_page_table = Some (\<lambda>k. 0), pincount = 0, page_table_level = 4\<rparr>"

definition vgpu4 :: gvt_state where
  "vgpu4 = vgpu0\<lparr>mms := (\<lambda>p. ggtt_mm0)(1 := ppgtt_mm0, 2 := ppgtt_mm0),
                  mm_lru_list_head := [1, 2],
                  page_allocator := [NoMemory, NoMemory, Page (Some 0x6000000)]\<rparr>"

text \<open>
  A vGPU with a 3-level PPGTT mm at address 1.  Its shadow root entry 0 points to the
  page-directory table at address 1 (frame \<open>0x5001\<close>), whose shadow entry 0 points to
  the PTE table at address 2 (frame \<open>0x5002\<close>, guest frame \<open>0x32\<close>).  The guest has
  written the entry 0 of its PTE table, \<open>0x1001\<close> (guest frame 1, present); the shadow
  PTE table has no entry present.
\<close>

definition ppgtt_mm1 :: intel_vgpu_mm where
  "ppgtt_mm1 =
     \<lparr>mm_type = INTEL_GVT_MM_PPGTT, initialized = True, shadowed = True,
      has_shadow_page_table = True, page_table_entry_type = GTT_TYPE_PPGTT_ROOT_L3_ENTRY,
      page_table_entry_cnt = 4, virtual_page_table = Some ((\<lambda>k. 0)(0 := 0x31001)),
      shadow_page_table = Some ((\<lambda>k. 0)(0 := 0x5001001)), pincount = 1,
      page_table_level = 3\<rparr>"

definition pde_spt1 :: intel_vgpu_ppgtt_spt where
  "pde_spt1 =
     \<lparr>shadow_page_page = Some 0x5001000, shadow_page_vaddr = (\<lambda>k. 0)(0 := 0x5002001),
      shadow_page_type = GTT_TYPE_PPGTT_PDE_PT, shadow_page_mfn = 0x5001,
      guest_page_writeprotection = True, guest_page_gfn = 0x31,
      guest_page_write_cnt = 0, guest_page_oos_page = None,
      guest_page_type = GTT_TYPE_PPGTT_PDE_PT, refcount = 1, post_shadow_bitmap = {}\<rparr>"

definition pte_spt1 :: intel_vgpu_ppgtt_spt where
  "pte_spt1 =
     \<lparr>shadow_page_page = Some 0x5002000, shadow_page_vaddr = (\<lambda>k. 0),
      shadow_page_type = GTT_TYPE_PPGTT_PTE_PT, shadow_page_mfn = 0x5002,
      guest_page_writeprotection = False, guest_page_gfn = 0x32,
      guest_page_write_cnt = 2, guest_page_oos_page = Some 0,
      guest_page_type = GTT_TYPE_PPGTT_PTE_PT, refcount = 1, post_shadow_bitmap = {}\<rparr>"

definition vgpu5 :: gvt_state where
  "vgpu5 = vgpu0\<lparr>mms := (\<lambda>p. ggtt_mm0)(1 := ppgtt_mm1),
                  spts := (\<lambda>p. zeroed_spt)(1 := pde_spt1, 2 := pte_spt1),
                  guest_page_hash_table := [2, 1], shadow_page_hash_table := [2, 1],
                  next_spt := 3,
                  guest_mem := (\<lambda>a. 0)(0x32000 := 1, 0x32001 := 0x10),
                  oos_pages := (\<lambda>p. \<lparr>oos_guest_page = None, oos_mem = (\<lambda>k. 0)\<rparr>)
                                 (0 := \<lparr>oos_guest_page = Some 2, oos_mem = (\<lambda>k. 0)\<rparr>),
                  oos_page_free_list_head := [1], oos_page_use_list_head := [0],
                  oos_page_list_head := [0]\<rparr>"







section \<open>Auxiliary facts\<close>

lemma unat_drop_bit_and_mask:
  "unat (drop_bit k (w::u64) AND mask n) = (unat w div 2 ^ k) mod 2 ^ n"
proof -
  have "unat (drop_bit k w AND mask n) = unat (take_bit n (drop_bit k w))"
    by (simp add: take_bit_eq_mask)
  also have "\<dots> = take_bit n (unat (drop_bit k w))"
    by (simp add: unsigned_take_bit_eq)
  also have "\<dots> = take_bit n (drop_bit k (unat w))"
    by (simp add: unat_drop_bit_eq)
  finally show ?thesis
    by (simp add: take_bit_eq_mod drop_bit_eq_div)
qed

lemma unat_drop_bit_div: "unat (drop_bit k (w::u64)) = unat w div 2 ^ k"
  unfolding unat_drop_bit_eq by (simp add: drop_bit_eq_div)

lemma mask9: "(0x1ff :: u64) = mask 9" by (simp add: mask_eq_exp_minus_1)

lemma mask2: "(0x3 :: u64) = mask 2" by (simp add: mask_eq_exp_minus_1)

lemma root_pointer_iff:
  "gtt_type_is_root_pointer t \<longleftrightarrow>
     t = GTT_TYPE_PPGTT_ROOT_L3_ENTRY \<or> t = GTT_TYPE_PPGTT_ROOT_L4_ENTRY"
  by (auto simp: gtt_type_is_root_pointer_def gtt_type_is_entry_def gtt_type_defs)

lemma and_1_bit0: "(w :: u64) AND 1 \<noteq> 0 \<longleftrightarrow> bit w 0"
  by (simp add: and_one_eq bit_0 mod_2_eq_odd)



lemma mm_read_state:
  "intel_vgpu_mm_get_entry mm pt e i s = (r, e', s') \<Longrightarrow> s' = s"
  by (auto simp: intel_vgpu_mm_get_entry_def gtt_get_entry64__BKL_def
      gtt_get_entry64_def Let_def split: prod.splits if_splits)

lemma Let_weak: "a = b \<Longrightarrow> Let a f = Let b f"
  by simp

lemmas eval_congs =
  Let_weak option.case_cong_weak prod.case_cong_weak list.case_cong_weak
  sum.case_cong_weak page_alloc.case_cong_weak pt_ptr.case_cong_weak

lemmas example_defs =
  vgpu0_def ggtt_mm0_def vgpu1_def pte_spt0_def vgpu2_def pde_spt0_def vgpu3_def
  zeroed_spt_def ppgtt_mm0_def vgpu4_def ppgtt_mm1_def pde_spt1_def pte_spt1_def vgpu5_def

lemmas eval_defs =
  emulate_gtt_mmio_write_def ggtt_get_guest_entry_def ggtt_set_guest_entry_def
  ggtt_set_shadow_entry_def intel_vgpu_mm_get_entry_def intel_vgpu_mm_set_entry_def
  gtt_get_entry64__BKL_def gtt_get_entry64_def gtt_set_entry64__BKL_def gtt_set_entry64_def
  mm_virtual_page_table_def mm_shadow_page_table_def pt_read_def pt_write_def
  read_pte64_def write_pte64_def gtt_invalidate_def gtt_entry_p2m_def
  intel_gvt_hypervisor_gfn_to_mfn_def gen8_gtt_test_present_def gen8_gtt_test_pse_def
  gen8_gtt_get_pfn_def gen8_gtt_set_pfn_def get_pse_type_def get_entry_type_def
  get_next_pt_type_def gtt_type_table_def GTT_TYPE_TABLE_ENTRY_def gtt_type_defs
  vgpu_gmadr_is_valid_def vgpu_gmadr_is_aperture_def vgpu_gmadr_is_hidden_def
  GTT_PAGE_SHIFT_def memcpy_to_entry_def memcpy_from_entry_def entry_bytes_def le_bytes32_def le_bytes_def upd_mm_def upd_spt_def upd_oos_def
  ADDR_4K_MASK_def ADDR_2M_MASK_def ADDR_1G_MASK_def GTT_HAW_def INTEL_GVT_INVALID_ADDR_def
  INTEL_GVT_MM_GGTT_def INTEL_GVT_MM_PPGTT_def EINVAL_def ENXIO_def ENOMEM_def
  ppgtt_write_protection_handler_def ppgtt_handle_guest_write_page_table_bytes_def
  handle_guest_write_entry_def handle_guest_write_oos_def can_do_out_of_sync_def
  ppgtt_handle_guest_write_page_table_def ppgtt_handle_guest_entry_add_def
  ppgtt_handle_guest_entry_removal_def ppgtt_get_guest_entry_def ppgtt_get_shadow_entry_def
  ppgtt_set_shadow_entry_def ppgtt_spt_get_entry_def ppgtt_spt_set_entry_def
  intel_gvt_hypervisor_write_gpa_def intel_gvt_hypervisor_set_wp_page_def
  intel_gvt_hypervisor_unset_wp_page_def guest_mem64_def gtt_type_is_entry_def
  gtt_type_is_pt_def gtt_type_is_pte_pt_def PAGE_SIZE_def PAGE_SHIFT_def GTT_PAGE_SIZE_def
  ppgtt_set_post_shadow_def ppgtt_allocate_oos_page_def attach_oos_page_def
  ppgtt_set_guest_page_oos_def detach_oos_page_def ppgtt_set_guest_page_sync_def
  sync_oos_page_def ppgtt_find_shadow_page_def find_shadow_page_def
  intel_vgpu_find_guest_page_def pt_entries_def
  alloc_spt_def reclaim_one_mm_def invalidate_mm_def invalidate_mm_pv_def
  ppgtt_get_shadow_root_entry_def ppgtt_set_shadow_root_entry_def
  ppgtt_get_guest_root_entry_def ppgtt_invalidate_shadow_page_by_shadow_entry_def
  invalidate_by_shadow_entry_def init_shadow_page_def intel_vgpu_init_guest_page_def
  ppgtt_free_shadow_page_def clean_shadow_page_def intel_vgpu_clean_guest_page_def
  ppgtt_get_shadow_page_def intel_vgpu_gma_to_gpa_def ppgtt_get_next_level_entry_def
  gma_to_ggtt_pte_index_def gen8_gma_to_pte_index_def gen8_gma_to_pde_index_def
  gen8_gma_to_l3_pdp_index_def gen8_gma_to_l4_pdp_index_def gen8_gma_to_pml4_index_def
  NOT_GTT_PAGE_MASK_def intel_vgpu_sync_oos_pages_def

lemma set_entry_oos_mem_frame:
  "enable_gvt_oos (snd (gtt_set_entry64__BKL (PT_oos_mem p) e i False g s)) = enable_gvt_oos s
   \<and> spts (snd (gtt_set_entry64__BKL (PT_oos_mem p) e i False g s)) = spts s
   \<and> oos_page_list_head (snd (gtt_set_entry64__BKL (PT_oos_mem p) e i False g s))
       = oos_page_list_head s"
  by (simp add: gtt_set_entry64__BKL_def gtt_set_entry64_def pt_write_def upd_oos_def)

lemma handle_guest_write_oos_transition:
  assumes "handle_guest_write_oos gpt we index s1 = Some (0, s')"
  shows "if enable_gvt_oos s1 \<and> guest_page_type (spts s1 gpt) = GTT_TYPE_PPGTT_PTE_PT
            \<and> 2 \<le> guest_page_write_cnt (spts s1 gpt) + 1
         then (\<exists>op. guest_page_oos_page (spts s' gpt) = Some op
                 \<and> oos_page_list_head s' \<noteq> [] \<and> last (oos_page_list_head s') = op
                 \<and> (hv_unset_wp_ret s' (guest_page_gfn (spts s' gpt)) = 0
                      \<longrightarrow> \<not> guest_page_writeprotection (spts s' gpt)))
         else oos_page_list_head s' = oos_page_list_head s1
              \<and> guest_page_writeprotection (spts s' gpt)
                  = guest_page_writeprotection (spts s1 gpt)"
proof (cases "enable_gvt_oos s1")
  case False
  with assms show ?thesis by (simp add: handle_guest_write_oos_def)
next
  case en: True
  define s1' where "s1' = upd_spt gpt (\<lambda>x. x\<lparr>guest_page_write_cnt := guest_page_write_cnt x + 1\<rparr>) s1"
  define s2 where "s2 = (case guest_page_oos_page (spts s1' gpt) of
               None \<Rightarrow> s1'
             | Some oos_page \<Rightarrow>
                 snd (gtt_set_entry64__BKL (PT_oos_mem oos_page) we index False 0 s1'))"
  have s2: "enable_gvt_oos s2 = enable_gvt_oos s1" "spts s2 = spts s1'"
    "oos_page_list_head s2 = oos_page_list_head s1"
    unfolding s2_def
    by (auto simp: set_entry_oos_mem_frame s1'_def upd_spt_def split: option.splits)
  have can: "can_do_out_of_sync s2 gpt \<longleftrightarrow>
      guest_page_type (spts s1 gpt) = GTT_TYPE_PPGTT_PTE_PT
      \<and> 2 \<le> guest_page_write_cnt (spts s1 gpt) + 1"
    using en by (simp add: can_do_out_of_sync_def s2 gtt_type_is_pte_pt_def s1'_def upd_spt_def)
  from assms en have run:
    "(if can_do_out_of_sync s2 gpt then
          (case (if guest_page_oos_page (spts s2 gpt) = None
                 then ppgtt_allocate_oos_page gpt s2 else Some (0, s2)) of
             None \<Rightarrow> None
           | Some (r, s3) \<Rightarrow>
               (case ppgtt_set_guest_page_oos gpt s3 of
                  (ret, s4) \<Rightarrow> if ret < 0 then Some (ret, s4) else Some (0, s4)))
        else Some (0, s2)) = Some (0, s')"
    unfolding handle_guest_write_oos_def s2_def s1'_def by (simp add: Let_def)
  show ?thesis
  proof (cases "can_do_out_of_sync s2 gpt")
    case False
    with run have "s' = s2" by simp
    with False can en s2 show ?thesis by (auto simp: s1'_def upd_spt_def)
  next
    case True
    with run obtain r s3 ret where
      fin: "ppgtt_set_guest_page_oos gpt s3 = (ret, s')" "\<not> ret < 0"
      by (auto split: option.splits prod.splits if_splits)
    then obtain o' where oo: "guest_page_oos_page (spts s3 gpt) = Some o'"
      and u: "intel_gvt_hypervisor_unset_wp_page gpt
                (s3\<lparr>oos_page_list_head := oos_page_list_head s3 @ [o']\<rparr>) = (ret, s')"
      by (auto simp: ppgtt_set_guest_page_oos_def EINVAL_def split: option.splits)
    from u oo have "guest_page_oos_page (spts s' gpt) = Some o'
        \<and> oos_page_list_head s' = oos_page_list_head s3 @ [o']
        \<and> (hv_unset_wp_ret s' (guest_page_gfn (spts s' gpt)) = 0
              \<longrightarrow> \<not> guest_page_writeprotection (spts s' gpt))"
      by (auto simp: intel_gvt_hypervisor_unset_wp_page_def Let_def upd_spt_def
          split: if_splits)
    with True can en show ?thesis by auto
  qed
qed





















lemma mm_read_state_snd [simp]: "snd (snd (intel_vgpu_mm_get_entry mm pt e i s)) = s"
proof -
  obtain r e' s' where g: "intel_vgpu_mm_get_entry mm pt e i s = (r, e', s')"
    by (cases "intel_vgpu_mm_get_entry mm pt e i s") auto
  from mm_read_state [OF g] g show ?thesis by simp
qed



















lemma gen8_gtt_set_pfn_type [simp]: "type (gen8_gtt_set_pfn e x) = type e"
  by (simp add: gen8_gtt_set_pfn_def)




lemma gen8_gtt_test_pse_val64 [simp]: "val64 (snd (gen8_gtt_test_pse e)) = val64 e"
  by (simp add: gen8_gtt_test_pse_def Let_def)





















lemma set_shadow_entry_size [simp]:
  "gtt_entry_size (snd (ppgtt_set_shadow_entry gpt e index s)) = gtt_entry_size s"
  by (simp add: ppgtt_set_shadow_entry_def ppgtt_spt_set_entry_def gtt_set_entry64__BKL_def
      gtt_set_entry64_def pt_write_def upd_spt_def)







section \<open>The claims\<close>

subsection \<open>C7: the index functions\<close>

text \<open>
  Claim C7 says that for every graphics memory address the per-level index functions
  extract the documented bit fields: PML4 bits 47:39, page-directory-pointer bits 38:30,
  page-directory bits 29:21, page-table bits 20:12, and the flat GGTT index is the
  address shifted right by 12.  The function \<^verbatim>\<open>gen8_gma_to_l3_pdp_index\<close> of the 3-level
  mode masks with \<^verbatim>\<open>0x3\<close>: at the address \<open>2^32\<close> bits 38:30 hold 4 and the function
  gives 0, so the conjunction of the claim fails there.
\<close>

theorem gma_index_l3_pdp_counterexample:
  "\<not> (unat (gen8_gma_to_pml4_index 0x100000000) = (unat (0x100000000 :: u64) div 2 ^ 39) mod 2 ^ 9
      \<and> unat (gen8_gma_to_l3_pdp_index 0x100000000) = (unat (0x100000000 :: u64) div 2 ^ 30) mod 2 ^ 9
      \<and> unat (gen8_gma_to_l4_pdp_index 0x100000000) = (unat (0x100000000 :: u64) div 2 ^ 30) mod 2 ^ 9
      \<and> unat (gen8_gma_to_pde_index 0x100000000) = (unat (0x100000000 :: u64) div 2 ^ 21) mod 2 ^ 9
      \<and> unat (gen8_gma_to_pte_index 0x100000000) = (unat (0x100000000 :: u64) div 2 ^ 12) mod 2 ^ 9
      \<and> unat (gma_to_ggtt_pte_index 0x100000000) = unat (0x100000000 :: u64) div 2 ^ 12)"
  by (simp add: gen8_gma_to_l3_pdp_index_def)

text \<open>
  Claim C7, amended: the PML4 index is bits 47:39, the page-directory-pointer index of
  the 4-level mode is bits 38:30 and that of the 3-level mode is bits 31:30 (a 3-level
  PPGTT has four root pointers), the page-directory index is bits 29:21, the page-table
  index is bits 20:12, and the flat GGTT index is the address shifted right by 12.
\<close>

theorem gma_index_bit_fields:
  "unat (gen8_gma_to_pml4_index gma) = (unat gma div 2 ^ 39) mod 2 ^ 9
   \<and> unat (gen8_gma_to_l4_pdp_index gma) = (unat gma div 2 ^ 30) mod 2 ^ 9
   \<and> unat (gen8_gma_to_l3_pdp_index gma) = (unat gma div 2 ^ 30) mod 2 ^ 2
   \<and> unat (gen8_gma_to_pde_index gma) = (unat gma div 2 ^ 21) mod 2 ^ 9
   \<and> unat (gen8_gma_to_pte_index gma) = (unat gma div 2 ^ 12) mod 2 ^ 9
   \<and> unat (gma_to_ggtt_pte_index gma) = unat gma div 2 ^ 12"
  unfolding gen8_gma_to_pml4_index_def gen8_gma_to_l4_pdp_index_def
    gen8_gma_to_l3_pdp_index_def gen8_gma_to_pde_index_def gen8_gma_to_pte_index_def
    gma_to_ggtt_pte_index_def GTT_PAGE_SHIFT_def mask9 mask2
  by (intro conjI unat_drop_bit_and_mask unat_drop_bit_div)

subsection \<open>C8: the present test\<close>

text \<open>
  Claim C8: the present test on a page-table entry is true for the root-pointer types
  (the L3 and the L4 root entry) if and only if the raw 64-bit value is not zero, and
  for every other type if and only if bit 0 of the raw value is set.
\<close>

theorem gen8_gtt_test_present_root_or_bit0:
  "(gtt_type_is_root_pointer (type e) \<longrightarrow> gen8_gtt_test_present e = (val64 e \<noteq> 0))
   \<and> (\<not> gtt_type_is_root_pointer (type e) \<longrightarrow> gen8_gtt_test_present e = bit (val64 e) 0)"
  by (simp add: root_pointer_iff gen8_gtt_test_present_def and_1_bit0)

theorem gen8_gtt_test_present_witness:
  "gtt_type_is_root_pointer GTT_TYPE_PPGTT_ROOT_L4_ENTRY
   \<and> gen8_gtt_test_present \<lparr>val64 = 0x2000, type = GTT_TYPE_PPGTT_ROOT_L4_ENTRY\<rparr>
   \<and> \<not> gtt_type_is_root_pointer GTT_TYPE_PPGTT_PTE_4K_ENTRY
   \<and> \<not> gen8_gtt_test_present \<lparr>val64 = 0x2000, type = GTT_TYPE_PPGTT_PTE_4K_ENTRY\<rparr>
   \<and> gen8_gtt_test_present \<lparr>val64 = 0x2001, type = GTT_TYPE_PPGTT_PTE_4K_ENTRY\<rparr>"
  using gen8_gtt_test_present_root_or_bit0
          [of "\<lparr>val64 = 0x2000, type = GTT_TYPE_PPGTT_ROOT_L4_ENTRY\<rparr>"]
        gen8_gtt_test_present_root_or_bit0
          [of "\<lparr>val64 = 0x2000, type = GTT_TYPE_PPGTT_PTE_4K_ENTRY\<rparr>"]
        gen8_gtt_test_present_root_or_bit0
          [of "\<lparr>val64 = 0x2001, type = GTT_TYPE_PPGTT_PTE_4K_ENTRY\<rparr>"]
  by (simp add: root_pointer_iff gtt_type_defs)

subsection \<open>C9: a GGTT write outside the vGPU's ranges\<close>

text \<open>
  Claim C9: a guest write of a GGTT entry through MMIO (four or eight bytes, the sizes
  that \<^verbatim>\<open>intel_vgpu_emulate_gtt_mmio_write\<close> lets through) whose graphics memory address
  lies neither in the aperture range nor in the hidden range of the vGPU is dropped:
  \<^verbatim>\<open>emulate_gtt_mmio_write\<close> returns 0 and the state is the one it was called in.
\<close>

theorem emulate_gtt_mmio_write_out_of_range_dropped:
  assumes "bytes = 4 \<or> bytes = 8"
    and "\<not> vgpu_gmadr_is_aperture s
            (push_bit GTT_PAGE_SHIFT (drop_bit (gtt_entry_size_shift s) (ucast off)))"
    and "\<not> vgpu_gmadr_is_hidden s
            (push_bit GTT_PAGE_SHIFT (drop_bit (gtt_entry_size_shift s) (ucast off)))"
  shows "emulate_gtt_mmio_write off p_data bytes s = (0, s)"
  using assms
  by (auto simp: emulate_gtt_mmio_write_def vgpu_gmadr_is_valid_def Let_def)

theorem emulate_gtt_mmio_write_out_of_range_witness:
  "\<not> vgpu_gmadr_is_aperture vgpu0 (push_bit GTT_PAGE_SHIFT (drop_bit (gtt_entry_size_shift vgpu0) (ucast (0x10 :: u32))))
   \<and> \<not> vgpu_gmadr_is_hidden vgpu0 (push_bit GTT_PAGE_SHIFT (drop_bit (gtt_entry_size_shift vgpu0) (ucast (0x10 :: u32))))
   \<and> emulate_gtt_mmio_write 0x10 [1, 0x10, 0, 0, 0, 0, 0, 0] 8 vgpu0 = (0, vgpu0)"
proof -
  have a: "\<not> vgpu_gmadr_is_aperture vgpu0 (push_bit GTT_PAGE_SHIFT (drop_bit (gtt_entry_size_shift vgpu0) (ucast (0x10 :: u32))))"
    by (simp add: vgpu_gmadr_is_aperture_def vgpu0_def GTT_PAGE_SHIFT_def)
  have h: "\<not> vgpu_gmadr_is_hidden vgpu0 (push_bit GTT_PAGE_SHIFT (drop_bit (gtt_entry_size_shift vgpu0) (ucast (0x10 :: u32))))"
    by (simp add: vgpu_gmadr_is_hidden_def vgpu0_def GTT_PAGE_SHIFT_def)
  from emulate_gtt_mmio_write_out_of_range_dropped [of 8 vgpu0 "0x10", OF _ a h] a h
  show ?thesis by simp
qed

subsection \<open>C10: access sizes\<close>

text \<open>
  Claim C10: a GTT MMIO read, a GTT MMIO write and a trapped write to a write-protected
  guest page-table page whose size is neither 4 nor 8 bytes return \<^verbatim>\<open>-EINVAL\<close>, whatever
  the state is, and leave the state (and the data buffer of a read) as it was.
\<close>

theorem gtt_access_size_rejected:
  assumes "bytes \<noteq> 4" and "bytes \<noteq> 8" and "ibytes \<noteq> 4" and "ibytes \<noteq> 8"
  shows "intel_vgpu_emulate_gtt_mmio_read off p_data bytes s = (- EINVAL, p_data, s)
       \<and> intel_vgpu_emulate_gtt_mmio_write off p_data bytes s = (- EINVAL, s)
       \<and> ppgtt_write_protection_handler fuel gp pa p_data ibytes s = Some (- EINVAL, s)"
  using assms
  by (simp add: intel_vgpu_emulate_gtt_mmio_read_def intel_vgpu_emulate_gtt_mmio_write_def
      ppgtt_write_protection_handler_def)

theorem gtt_access_size_rejected_witness:
  "intel_vgpu_emulate_gtt_mmio_read 0x800000 [0, 0] 2 vgpu0 = (- 22, [0, 0], vgpu0)
   \<and> intel_vgpu_emulate_gtt_mmio_write 0x800000 [1, 0] 2 vgpu0 = (- 22, vgpu0)
   \<and> ppgtt_write_protection_handler 0 0 0x5000 [1, 0] 2 vgpu0 = Some (- 22, vgpu0)"
  using gtt_access_size_rejected [of 2 2 "0x800000" "[0, 0]" vgpu0 0 0 "0x5000"]
        gtt_access_size_rejected [of 2 2 "0x800000" "[1, 0]" vgpu0 0 0 "0x5000"]
  by (simp add: EINVAL_def)

subsection \<open>C3: a guest frame that the hypervisor cannot translate\<close>





subsection \<open>C4: the transition to out-of-sync\<close>

text \<open>
  Claim C4 says that a tracked, write-protected guest page-table page becomes
  out-of-sync exactly when the OOS feature is enabled and its write count has reached
  at least 2.  \<^verbatim>\<open>can_do_out_of_sync\<close> asks in addition for a PTE-level table: on the vGPU
  \<open>vgpu2\<close> the feature is enabled and the page at address 1 is a write-protected
  page-directory table with write count 5; the trapped write of an entry succeeds, the
  write count becomes 6, and the page is still write-protected and not on the list of
  out-of-sync pages.
\<close>

theorem out_of_sync_pde_counterexample:
  "enable_gvt_oos vgpu2
   \<and> guest_page_writeprotection (spts vgpu2 1)
   \<and> guest_page_write_cnt (spts vgpu2 1) = 5
   \<and> \<not> can_do_out_of_sync vgpu2 1
   \<and> map_option fst
        (ppgtt_write_protection_handler 1 1 0x30028 [0, 0, 0, 0, 0, 0, 0, 0] 8 vgpu2) = Some 0
   \<and> guest_page_write_cnt (spts (snd (the
        (ppgtt_write_protection_handler 1 1 0x30028 [0, 0, 0, 0, 0, 0, 0, 0] 8 vgpu2))) 1) = 6
   \<and> guest_page_writeprotection (spts (snd (the
        (ppgtt_write_protection_handler 1 1 0x30028 [0, 0, 0, 0, 0, 0, 0, 0] 8 vgpu2))) 1)
   \<and> oos_page_list_head (snd (the
        (ppgtt_write_protection_handler 1 1 0x30028 [0, 0, 0, 0, 0, 0, 0, 0] 8 vgpu2))) = []"
  by (simp add: eval_defs example_defs Let_def cong: eval_congs)

text \<open>
  Claim C4, amended: when the handling of a trapped write,
  \<^verbatim>\<open>ppgtt_handle_guest_write_page_table_bytes\<close>, succeeds, the page becomes out-of-sync
  (its out-of-sync page is put at the end of the vGPU's list of out-of-sync pages and
  the write protection is lifted where the hypervisor call succeeds) if the OOS feature
  is enabled, the page is a PTE-level page table and its write count, with this write,
  is at least 2; otherwise the list and the write protection of the page are as the
  emulation of the entry left them.
\<close>

theorem out_of_sync_transition:
  assumes "ppgtt_handle_guest_write_page_table_bytes fuel gpt pa p_data bytes s = Some (0, s')"
  shows "\<exists>we index s1.
     handle_guest_write_entry fuel gpt pa p_data bytes s = Some (0, we, index, s1)
     \<and> (if enable_gvt_oos s1 \<and> guest_page_type (spts s1 gpt) = GTT_TYPE_PPGTT_PTE_PT
            \<and> 2 \<le> guest_page_write_cnt (spts s1 gpt) + 1
         then (\<exists>op. guest_page_oos_page (spts s' gpt) = Some op
                 \<and> oos_page_list_head s' \<noteq> [] \<and> last (oos_page_list_head s') = op
                 \<and> (hv_unset_wp_ret s' (guest_page_gfn (spts s' gpt)) = 0
                      \<longrightarrow> \<not> guest_page_writeprotection (spts s' gpt)))
         else oos_page_list_head s' = oos_page_list_head s1
              \<and> guest_page_writeprotection (spts s' gpt)
                  = guest_page_writeprotection (spts s1 gpt))"
proof -
  from assms obtain we index s1 where
    h: "handle_guest_write_entry fuel gpt pa p_data bytes s = Some (0, we, index, s1)"
    and w: "handle_guest_write_oos gpt we index s1 = Some (0, s')"
    by (auto simp: ppgtt_handle_guest_write_page_table_bytes_def
        split: option.splits if_splits)
  from handle_guest_write_oos_transition [OF w] h show ?thesis by blast
qed


theorem out_of_sync_transition_witness:
  "map_option fst
     (ppgtt_handle_guest_write_page_table_bytes 1 1 0x30028 [1, 0x10, 0, 0, 0, 0, 0, 0] 8 vgpu3)
     = Some 0
   \<and> guest_page_type (spts vgpu3 1) = GTT_TYPE_PPGTT_PTE_PT
   \<and> guest_page_write_cnt (spts vgpu3 1) = 1
   \<and> oos_page_list_head vgpu3 = []
   \<and> oos_page_list_head (snd (the
        (ppgtt_handle_guest_write_page_table_bytes 1 1 0x30028 [1, 0x10, 0, 0, 0, 0, 0, 0] 8
           vgpu3))) = [0]
   \<and> guest_page_oos_page (spts (snd (the
        (ppgtt_handle_guest_write_page_table_bytes 1 1 0x30028 [1, 0x10, 0, 0, 0, 0, 0, 0] 8
           vgpu3))) 1) = Some 0
   \<and> \<not> guest_page_writeprotection (spts (snd (the
        (ppgtt_handle_guest_write_page_table_bytes 1 1 0x30028 [1, 0x10, 0, 0, 0, 0, 0, 0] 8
           vgpu3))) 1)"
proof -
  have h: "ppgtt_handle_guest_write_page_table_bytes 1 1 0x30028 [1, 0x10, 0, 0, 0, 0, 0, 0] 8
             vgpu3
           = Some (0, snd (the (ppgtt_handle_guest_write_page_table_bytes 1 1 0x30028
                                  [1, 0x10, 0, 0, 0, 0, 0, 0] 8 vgpu3)))"
    by (simp add: eval_defs example_defs Let_def cong: eval_congs)
  have e: "map_option fst
     (ppgtt_handle_guest_write_page_table_bytes 1 1 0x30028 [1, 0x10, 0, 0, 0, 0, 0, 0] 8 vgpu3)
     = Some 0
   \<and> guest_page_type (spts vgpu3 1) = GTT_TYPE_PPGTT_PTE_PT
   \<and> guest_page_write_cnt (spts vgpu3 1) = 1
   \<and> oos_page_list_head vgpu3 = []"
    by (simp add: eval_defs example_defs Let_def cong: eval_congs)
  have s1: "handle_guest_write_entry 1 1 0x30028 [1, 0x10, 0, 0, 0, 0, 0, 0] 8 vgpu3
            = Some (0, we, index, s1) \<Longrightarrow>
            enable_gvt_oos s1 \<and> guest_page_type (spts s1 1) = GTT_TYPE_PPGTT_PTE_PT
            \<and> guest_page_write_cnt (spts s1 1) = 1
            \<and> hv_unset_wp_ret s1 = (\<lambda>a. 0)" for we index s1
    by (simp add: eval_defs example_defs Let_def cong: eval_congs) auto
  have hv: "hv_unset_wp_ret (snd (the (ppgtt_handle_guest_write_page_table_bytes 1 1 0x30028
                                  [1, 0x10, 0, 0, 0, 0, 0, 0] 8 vgpu3))) = (\<lambda>a. 0)"
    by (simp add: eval_defs example_defs Let_def cong: eval_congs)
  from out_of_sync_transition [OF h] obtain we index s1 where
    a: "handle_guest_write_entry 1 1 0x30028 [1, 0x10, 0, 0, 0, 0, 0, 0] 8 vgpu3
            = Some (0, we, index, s1)"
    and b: "(if enable_gvt_oos s1 \<and> guest_page_type (spts s1 1) = GTT_TYPE_PPGTT_PTE_PT
            \<and> 2 \<le> guest_page_write_cnt (spts s1 1) + 1
         then (\<exists>op. guest_page_oos_page (spts (snd (the (ppgtt_handle_guest_write_page_table_bytes 1 1 0x30028
                                  [1, 0x10, 0, 0, 0, 0, 0, 0] 8 vgpu3))) 1) = Some op
                 \<and> oos_page_list_head (snd (the (ppgtt_handle_guest_write_page_table_bytes 1 1 0x30028
                                  [1, 0x10, 0, 0, 0, 0, 0, 0] 8 vgpu3))) \<noteq> []
                 \<and> last (oos_page_list_head (snd (the (ppgtt_handle_guest_write_page_table_bytes 1 1 0x30028
                                  [1, 0x10, 0, 0, 0, 0, 0, 0] 8 vgpu3)))) = op
                 \<and> (hv_unset_wp_ret (snd (the (ppgtt_handle_guest_write_page_table_bytes 1 1 0x30028
                                  [1, 0x10, 0, 0, 0, 0, 0, 0] 8 vgpu3))) (guest_page_gfn (spts (snd (the (ppgtt_handle_guest_write_page_table_bytes 1 1 0x30028
                                  [1, 0x10, 0, 0, 0, 0, 0, 0] 8 vgpu3))) 1)) = 0
                      \<longrightarrow> \<not> guest_page_writeprotection (spts (snd (the (ppgtt_handle_guest_write_page_table_bytes 1 1 0x30028
                                  [1, 0x10, 0, 0, 0, 0, 0, 0] 8 vgpu3))) 1)))
         else oos_page_list_head (snd (the (ppgtt_handle_guest_write_page_table_bytes 1 1 0x30028
                                  [1, 0x10, 0, 0, 0, 0, 0, 0] 8 vgpu3))) = oos_page_list_head s1
              \<and> guest_page_writeprotection (spts (snd (the (ppgtt_handle_guest_write_page_table_bytes 1 1 0x30028
                                  [1, 0x10, 0, 0, 0, 0, 0, 0] 8 vgpu3))) 1)
                  = guest_page_writeprotection (spts s1 1))"
    by blast
  from s1 [OF a] b hv have wp: "\<not> guest_page_writeprotection (spts (snd (the
        (ppgtt_handle_guest_write_page_table_bytes 1 1 0x30028 [1, 0x10, 0, 0, 0, 0, 0, 0] 8
           vgpu3))) 1)"
    by auto
  have l: "oos_page_list_head (snd (the
        (ppgtt_handle_guest_write_page_table_bytes 1 1 0x30028 [1, 0x10, 0, 0, 0, 0, 0, 0] 8
           vgpu3))) = [0]
   \<and> guest_page_oos_page (spts (snd (the
        (ppgtt_handle_guest_write_page_table_bytes 1 1 0x30028 [1, 0x10, 0, 0, 0, 0, 0, 0] 8
           vgpu3))) 1) = Some 0"
    by (simp add: eval_defs example_defs Let_def cong: eval_congs)
  from e wp l show ?thesis by blast
qed

subsection \<open>C5: allocation failure, reclamation and retry\<close>




subsection \<open>C6: two synchronisations in a row\<close>




subsection \<open>C1: the translation of a graphics memory address\<close>





subsection \<open>C2: addition before removal, and the scratch frame\<close>




end
